theory Spec2Isabelle
  imports Complex_Main "HOL-Library.Sublist"
begin

section \<open>Data model\<close>

subsection \<open>JSON values and Python truthiness\<close>

text \<open>
  The values that \<^verbatim>\<open>json.loads\<close> produces and that the dict literals of the clients
  are built from. A Python dict is an association list read with \<open>map_of\<close>; Python dicts
  have unique keys. A float is falsy exactly when it is zero; NaN and the infinities,
  which are truthy, behave in this program like any non-zero float.
\<close>

datatype json =
    JNull
  | JBool bool
  | JInt int
  | JFloat real
  | JStr string
  | JList "json list"
  | JDict "(string \<times> json) list"

text \<open>Python's truth value of an object, as used by \<^verbatim>\<open>x or default\<close>.\<close>

fun truthy :: "json \<Rightarrow> bool" where
  "truthy JNull = False"
| "truthy (JBool b) = b"
| "truthy (JInt i) = (i \<noteq> 0)"
| "truthy (JFloat x) = (x \<noteq> 0)"
| "truthy (JStr s) = (s \<noteq> [])"
| "truthy (JList xs) = (xs \<noteq> [])"
| "truthy (JDict kvs) = (kvs \<noteq> [])"

text \<open>\<^verbatim>\<open>x or d\<close>.\<close>

definition py_or :: "json \<Rightarrow> json \<Rightarrow> json" where
  "py_or x d = (if truthy x then x else d)"

text \<open>\<^verbatim>\<open>d.get(k)\<close> on a dict: the value, or None when the key is absent.\<close>

definition dict_get :: "(string \<times> json) list \<Rightarrow> string \<Rightarrow> json" where
  "dict_get kvs k = (case map_of kvs k of None \<Rightarrow> JNull | Some v \<Rightarrow> v)"

text \<open>\<^verbatim>\<open>s or ""\<close> on an optional string.\<close>

fun str_or_empty :: "string option \<Rightarrow> string" where
  "str_or_empty None = []"
| "str_or_empty (Some s) = s"

subsection \<open>Tool descriptors, messages, turns\<close>

text \<open>An MCP tool descriptor: \<^verbatim>\<open>tool.name\<close>, \<^verbatim>\<open>tool.description\<close> (may be None),
  \<^verbatim>\<open>tool.inputSchema\<close>.\<close>

record tool =
  name :: string
  description :: "string option"
  inputSchema :: json

text \<open>A requested tool call: \<^verbatim>\<open>tool_call.id\<close>, \<^verbatim>\<open>tool_call.function.name\<close>,
  \<^verbatim>\<open>tool_call.function.arguments\<close> (the raw payload; None when absent).\<close>

record tool_call =
  tc_id :: string
  tc_name :: string
  tc_arguments :: "string option"

text \<open>The assistant message of a completion, \<^verbatim>\<open>response.choices[0].message\<close>:
  its text (may be None) and its tool calls (may be None).\<close>

record message =
  content :: "string option"
  tool_calls :: "tool_call list option"

text \<open>The entries of \<^verbatim>\<open>self.messages\<close>. A tool turn carries the \<^verbatim>\<open>tool_call_id\<close>
  and its content: the result content of the call, or an error text.\<close>

datatype turn =
    Turn_system string
  | Turn_user string
  | Turn_assistant message
  | Turn_tool string json

text \<open>The arguments of \<^verbatim>\<open>self.openai.chat.completions.create\<close>: \<open>tools\<close> is None when
  no catalog is passed, \<open>max_tokens\<close> is None when it is not given.\<close>

record request =
  model :: string
  tools :: "json list option"
  max_tokens :: "nat option"
  req_messages :: "turn list"

text \<open>
  Where the class of an exception stands in Python's hierarchy, as far as the
  \<^verbatim>\<open>except\<close> clauses of the client tell: an instance of \<^verbatim>\<open>json.JSONDecodeError\<close>
  (which is an \<^verbatim>\<open>Exception\<close>), another instance of \<^verbatim>\<open>Exception\<close> (RecursionError,
  ValueError, McpError, ...), or an instance of \<^verbatim>\<open>BaseException\<close> that is no
  \<^verbatim>\<open>Exception\<close> (asyncio.CancelledError, KeyboardInterrupt, SystemExit).
\<close>

datatype exn_base = IsJSONDecodeError | IsException | IsBaseException

text \<open>An exception: where its class stands, the name of its class and its text
  (\<^verbatim>\<open>str(e)\<close>).\<close>

datatype exn = Exn (exn_base: exn_base) (exn_class: string) (exn_str: string)

text \<open>Whether \<^verbatim>\<open>except json.JSONDecodeError\<close> and \<^verbatim>\<open>except Exception\<close> catch it.\<close>

definition is_JSONDecodeError :: "exn \<Rightarrow> bool" where
  "is_JSONDecodeError e = (exn_base e = IsJSONDecodeError)"

definition is_Exception :: "exn \<Rightarrow> bool" where
  "is_Exception e = (exn_base e \<noteq> IsBaseException)"

subsection \<open>The collaborators and the client's state\<close>

text \<open>
  Every call the client makes to a collaborator is logged in a trace. The collaborators are
  functions of the trace so far and of their arguments, so that the same request can be
  answered differently at different times; each returns a value or raises (\<open>Inl\<close>).
\<close>

datatype event =
    ListTools
  | Create request
  | CallTool string json

text \<open>
  \<open>MODEL\<close> is the module constant read from the environment. \<open>session_list_tools\<close> is
  \<^verbatim>\<open>self.session.list_tools().tools\<close>, \<open>completions_create\<close> is
  \<^verbatim>\<open>self.openai.chat.completions.create(...).choices[0].message\<close>, \<open>session_call_tool\<close> is
  \<^verbatim>\<open>self.session.call_tool(name, args).content\<close>. \<open>json_loads\<close> is \<^verbatim>\<open>json.loads\<close> on a
  string: the decoded value, or the exception it raises (a JSONDecodeError, or another one,
  such as the RecursionError on deeply nested input and the ValueError on an integer of too
  many digits). \<open>py_str\<close> is the text that an f-string gives for a decoded value.
\<close>

record env =
  MODEL :: string
  session_list_tools :: "event list \<Rightarrow> exn + tool list"
  completions_create :: "event list \<Rightarrow> request \<Rightarrow> exn + message"
  session_call_tool :: "event list \<Rightarrow> string \<Rightarrow> json \<Rightarrow> exn + json"
  json_loads :: "string \<Rightarrow> exn + json"
  py_str :: "json \<Rightarrow> string"

text \<open>The client object: \<^verbatim>\<open>self.messages\<close>, and the trace of its calls.\<close>

record client =
  messages :: "turn list"
  trace :: "event list"

text \<open>The local variables of \<^verbatim>\<open>process_query\<close> while its loop runs, with the client.\<close>

record frame =
  self :: client
  response :: message
  final_text :: "string option list"
  tool_call_count :: nat

datatype outcome =
    Continue frame
  | Break frame
  | Raise exn frame

section \<open>The tool registry adapter\<close>

text \<open>\<^verbatim>\<open>convert_tool_format\<close> of \<^verbatim>\<open>standard_client.py\<close> (the Chat Completions shape).\<close>

definition convert_tool_format :: "tool \<Rightarrow> json" where
  "convert_tool_format t =
     (let properties = (case inputSchema t of
                          JDict kvs \<Rightarrow> py_or (dict_get kvs ''properties'') (JDict [])
                        | _ \<Rightarrow> JDict []);
          required = (case inputSchema t of
                        JDict kvs \<Rightarrow> py_or (dict_get kvs ''required'') (JList [])
                      | _ \<Rightarrow> JList [])
      in JDict [
           (''type'', JStr ''function''),
           (''function'', JDict [
              (''name'', JStr (name t)),
              (''description'', JStr (str_or_empty (description t))),
              (''parameters'', JDict [
                 (''type'', JStr ''object''),
                 (''properties'', properties),
                 (''required'', required)])])])"

text \<open>\<^verbatim>\<open>convert_tool_format\<close> of \<^verbatim>\<open>client.py\<close> (the Responses API shape); the
  description is passed on as it is.\<close>

definition client_convert_tool_format :: "tool \<Rightarrow> json" where
  "client_convert_tool_format t =
     (let properties = (case inputSchema t of
                          JDict kvs \<Rightarrow> py_or (dict_get kvs ''properties'') (JDict [])
                        | _ \<Rightarrow> JDict []);
          required = (case inputSchema t of
                        JDict kvs \<Rightarrow> py_or (dict_get kvs ''required'') (JList [])
                      | _ \<Rightarrow> JList [])
      in JDict [
           (''type'', JStr ''function''),
           (''name'', JStr (name t)),
           (''description'', (case description t of None \<Rightarrow> JNull | Some d \<Rightarrow> JStr d)),
           (''parameters'', JDict [
              (''type'', JStr ''object''),
              (''properties'', properties),
              (''required'', required)])])"

text \<open>Reading a key of a converted tool; None (\<open>JNull\<close>) when the value is no dict or
  lacks the key.\<close>

fun field :: "json \<Rightarrow> string \<Rightarrow> json" where
  "field (JDict kvs) k = dict_get kvs k"
| "field _ k = JNull"

section \<open>The orchestration loop\<close>

definition MAX_TOOL_CALLS :: nat where
  "MAX_TOOL_CALLS = 5"

definition newline :: char where
  "newline = CHR 0x0A"

definition SYSTEM_PROMPT :: string where
  "SYSTEM_PROMPT =
     ''You are a helpful assistant with access to tools.'' @ [newline, newline] @
     ''Rules:'' @ [newline] @
     ''1. Call tools when you need information. Use valid JSON for arguments.'' @ [newline] @
     ''2. Once you have enough information, respond with a final answer (no more tool calls).'' @ [newline] @
     ''3. Never call a tool twice with the same arguments.'' @ [newline] @
     ''4. Keep search queries short and specific (3-6 words work best).''"

definition FINAL_PROMPT :: string where
  "FINAL_PROMPT = ''Please provide your final answer based on the information gathered so far. Do not make any more tool calls.''"

text \<open>The decimal text of a number, as an f-string prints it.\<close>

fun str_nat :: "nat \<Rightarrow> string" where
  "str_nat n = (if n < 10 then [''0123456789'' ! n]
                else str_nat (n div 10) @ [''0123456789'' ! (n mod 10)])"

declare str_nat.simps [simp del]

definition STOPPED_TEXT :: string where
  "STOPPED_TEXT = ''[Stopped: exceeded maximum of '' @ str_nat MAX_TOOL_CALLS @ '' tool call rounds]''"

text \<open>\<^verbatim>\<open>sep.join(xs)\<close>: a TypeError at the first item that is not a string.\<close>

fun join_from :: "nat \<Rightarrow> string \<Rightarrow> string option list \<Rightarrow> exn + string" where
  "join_from i sep [] = Inr []"
| "join_from i sep (None # xs) =
     Inl (Exn IsException ''TypeError''
           (''sequence item '' @ str_nat i @ '': expected str instance, NoneType found''))"
| "join_from i sep (Some x # xs) =
     (case join_from (i + 1) sep xs of
        Inl e \<Rightarrow> Inl e
      | Inr r \<Rightarrow> Inr (if xs = [] then x else x @ sep @ r))"

definition str_join :: "string \<Rightarrow> string option list \<Rightarrow> exn + string" where
  "str_join sep xs = join_from 0 sep xs"

subsection \<open>Calls to the collaborators\<close>

definition append_message :: "turn \<Rightarrow> client \<Rightarrow> client" where
  "append_message t c = c\<lparr>messages := messages c @ [t]\<rparr>"

definition list_tools :: "env \<Rightarrow> client \<Rightarrow> (exn + tool list) \<times> client" where
  "list_tools env c = (session_list_tools env (trace c), c\<lparr>trace := trace c @ [ListTools]\<rparr>)"

definition create :: "env \<Rightarrow> request \<Rightarrow> client \<Rightarrow> (exn + message) \<times> client" where
  "create env rq c = (completions_create env (trace c) rq, c\<lparr>trace := trace c @ [Create rq]\<rparr>)"

definition call_tool :: "env \<Rightarrow> string \<Rightarrow> json \<Rightarrow> client \<Rightarrow> (exn + json) \<times> client" where
  "call_tool env n args c =
     (session_call_tool env (trace c) n args, c\<lparr>trace := trace c @ [CallTool n args]\<rparr>)"

subsection \<open>One requested tool call (the body of the for loop)\<close>

text \<open>
  The \<^verbatim>\<open>print\<close> calls only write to the console and are left out. The decoding sits
  in \<^verbatim>\<open>try ... except json.JSONDecodeError\<close>: a JSONDecodeError is answered with a tool
  turn and the loop goes on with the next call (\<^verbatim>\<open>continue\<close>), any other exception of
  \<^verbatim>\<open>json.loads\<close> leaves the loop and \<^verbatim>\<open>process_query\<close>. The call of the tool sits in
  \<^verbatim>\<open>try ... except Exception\<close>: an instance of \<^verbatim>\<open>Exception\<close> is answered with a tool
  turn, any other exception leaves the loop and \<^verbatim>\<open>process_query\<close>. The result of one call
  is the exception that leaves the loop, if any, and the frame.
\<close>

text \<open>\<^verbatim>\<open>json.loads(tool_args_raw) if tool_args_raw else {}\<close>.\<close>

definition decode_args :: "env \<Rightarrow> string option \<Rightarrow> exn + json" where
  "decode_args env raw =
     (case raw of
        None \<Rightarrow> Inr (JDict [])
      | Some s \<Rightarrow> if s \<noteq> [] then json_loads env s else Inr (JDict []))"

definition process_tool_call :: "env \<Rightarrow> tool_call \<Rightarrow> frame \<Rightarrow> exn option \<times> frame" where
  "process_tool_call env tc fr =
     (let tool_name = tc_name tc;
          tool_args_raw = tc_arguments tc
      in case decode_args env tool_args_raw of
           Inl e \<Rightarrow>
             if is_JSONDecodeError e then
               (None,
                fr\<lparr>self := append_message
                       (Turn_tool (tc_id tc)
                          (JStr (''Error: Invalid JSON in tool arguments. Please try again with valid JSON. Details: '' @ exn_str e)))
                       (self fr)\<rparr>)
             else (Some e, fr)
         | Inr tool_args \<Rightarrow>
             (case call_tool env tool_name tool_args (self fr) of
                (Inr result_content, c) \<Rightarrow>
                  (None,
                   fr\<lparr>self := append_message (Turn_tool (tc_id tc) result_content) c,
                      final_text := final_text fr @
                        [Some (''[Calling tool '' @ tool_name @ '' with args '' @ py_str env tool_args @ '']'')]\<rparr>)
              | (Inl e, c) \<Rightarrow>
                  if is_Exception e then
                    (None,
                     fr\<lparr>self := append_message
                            (Turn_tool (tc_id tc) (JStr (''Error executing tool: '' @ exn_str e))) c\<rparr>)
                  else (Some e, fr\<lparr>self := c\<rparr>)))"

text \<open>The for loop: the calls in their order, up to the first exception that leaves it.\<close>

fun process_tool_calls :: "env \<Rightarrow> tool_call list \<Rightarrow> frame \<Rightarrow> exn option \<times> frame" where
  "process_tool_calls env [] fr = (None, fr)"
| "process_tool_calls env (tc # tcs) fr =
     (case process_tool_call env tc fr of
        (None, fr') \<Rightarrow> process_tool_calls env tcs fr'
      | (Some e, fr') \<Rightarrow> (Some e, fr'))"

subsection \<open>One iteration of the while loop\<close>

definition loop_body :: "env \<Rightarrow> json list \<Rightarrow> frame \<Rightarrow> outcome" where
  "loop_body env available_tools fr =
     (let msg = response fr;
          fr1 = fr\<lparr>self := append_message (Turn_assistant msg) (self fr)\<rparr>
      in if tool_call_count fr1 \<ge> MAX_TOOL_CALLS then
           (let fr2 = fr1\<lparr>final_text := final_text fr1 @ [Some STOPPED_TEXT]\<rparr>;
                fr3 = fr2\<lparr>self := append_message (Turn_user FINAL_PROMPT) (self fr2)\<rparr>
            in case create env \<lparr>model = MODEL env, tools = None, max_tokens = Some 1000,
                                req_messages = messages (self fr3)\<rparr> (self fr3) of
                 (Inl e, c) \<Rightarrow> Raise e (fr3\<lparr>self := c\<rparr>)
               | (Inr final_response, c) \<Rightarrow>
                   Break (fr3\<lparr>self := c,
                              final_text := final_text fr3 @
                                [Some (str_or_empty (content final_response))]\<rparr>))
         else
           (case tool_calls msg of
              Some tcs \<Rightarrow>
                (let fr2 = fr1\<lparr>tool_call_count := tool_call_count fr1 + 1\<rparr>
                 in case process_tool_calls env tcs fr2 of
                      (Some e, fr3) \<Rightarrow> Raise e fr3
                    | (None, fr3) \<Rightarrow>
                        (case create env \<lparr>model = MODEL env, tools = Some available_tools,
                                          max_tokens = Some 1000,
                                          req_messages = messages (self fr3)\<rparr> (self fr3) of
                           (Inl e, c) \<Rightarrow> Raise e (fr3\<lparr>self := c\<rparr>)
                         | (Inr r, c) \<Rightarrow> Continue (fr3\<lparr>self := c, response := r\<rparr>)))
            | None \<Rightarrow> Break (fr1\<lparr>final_text := final_text fr1 @ [content msg]\<rparr>)))"

subsection \<open>The while loop\<close>

text \<open>
  The loop runs the body until it breaks or raises. It returns \<^verbatim>\<open>final_text\<close>, or the
  exception, with the client as the loop left it.
\<close>

function while_loop :: "env \<Rightarrow> json list \<Rightarrow> frame \<Rightarrow> (exn + string option list) \<times> client" where
  "while_loop env available_tools fr =
     (case loop_body env available_tools fr of
        Continue fr' \<Rightarrow> while_loop env available_tools fr'
      | Break fr' \<Rightarrow> (Inr (final_text fr'), self fr')
      | Raise e fr' \<Rightarrow> (Inl e, self fr'))"
  by pat_completeness auto
termination
proof (relation "measure (\<lambda>(env, available_tools, fr). MAX_TOOL_CALLS - tool_call_count fr)")
  show "wf (measure (\<lambda>(env, available_tools, fr). MAX_TOOL_CALLS - tool_call_count fr))"
    by simp
next
  fix env :: env and available_tools :: "json list" and fr fr' :: frame
  assume step: "loop_body env available_tools fr = Continue fr'"
  have one: "\<And>tc f. tool_call_count (snd (process_tool_call env tc f)) = tool_call_count f"
    by (simp add: process_tool_call_def Let_def split: sum.splits prod.splits)
  have batch: "\<And>tcs f. tool_call_count (snd (process_tool_calls env tcs f)) = tool_call_count f"
  proof -
    fix tcs f
    show "tool_call_count (snd (process_tool_calls env tcs f)) = tool_call_count f"
    proof (induction tcs arbitrary: f)
      case Nil
      show ?case by simp
    next
      case (Cons tc tcs)
      obtain r f' where p: "process_tool_call env tc f = (r, f')"
        by (cases "process_tool_call env tc f")
      with one [of tc f] have "tool_call_count f' = tool_call_count f" by simp
      with p Cons.IH [of f'] show ?case by (cases r) simp_all
    qed
  qed
  have batch': "\<And>tcs f r f'. process_tool_calls env tcs f = (r, f') \<Longrightarrow>
                  tool_call_count f' = tool_call_count f"
    using batch by (metis snd_conv)
  from step have "tool_call_count fr < MAX_TOOL_CALLS \<and> tool_call_count fr' = tool_call_count fr + 1"
    by (auto simp: loop_body_def Let_def split: if_splits option.splits sum.splits prod.splits
          dest: batch')
  then have "MAX_TOOL_CALLS - tool_call_count fr' < MAX_TOOL_CALLS - tool_call_count fr"
    by arith
  then show "((env, available_tools, fr'), (env, available_tools, fr))
      \<in> measure (\<lambda>(env, available_tools, fr). MAX_TOOL_CALLS - tool_call_count fr)"
    by simp
qed

declare while_loop.simps [simp del]

subsection \<open>process_query\<close>

text \<open>
  The part of \<^verbatim>\<open>process_query\<close> before the loop: the system turn and the user turn are
  appended, the tools are listed and converted, the first completion is requested and
  appended, and the locals are initialised. It yields the converted tools and the frame
  the loop starts in, or the exception of a collaborator.
\<close>

definition enter_loop :: "env \<Rightarrow> string \<Rightarrow> client \<Rightarrow> (exn \<times> client) + (json list \<times> frame)" where
  "enter_loop env query c0 =
     (let c1 = append_message (Turn_system SYSTEM_PROMPT) c0;
          c2 = append_message (Turn_user query) c1
      in case list_tools env c2 of
           (Inl e, c3) \<Rightarrow> Inl (e, c3)
         | (Inr ts, c3) \<Rightarrow>
             (let available_tools = map convert_tool_format ts
              in case create env \<lparr>model = MODEL env, tools = Some available_tools,
                                  max_tokens = None, req_messages = messages c3\<rparr> c3 of
                   (Inl e, c4) \<Rightarrow> Inl (e, c4)
                 | (Inr r, c4) \<Rightarrow>
                     Inr (available_tools,
                          \<lparr>self = append_message (Turn_assistant r) c4, response = r,
                           final_text = [], tool_call_count = 0\<rparr>)))"

definition process_query :: "env \<Rightarrow> string \<Rightarrow> client \<Rightarrow> (exn + string) \<times> client" where
  "process_query env query c0 =
     (case enter_loop env query c0 of
        Inl (e, c) \<Rightarrow> (Inl e, c)
      | Inr (available_tools, fr) \<Rightarrow>
          (case while_loop env available_tools fr of
             (Inl e, c) \<Rightarrow> (Inl e, c)
           | (Inr ft, c) \<Rightarrow> (str_join [newline] ft, c)))"

text \<open>
  Successive queries on one client, as \<^verbatim>\<open>chat_loop\<close> runs them: an exception of a
  query is caught and reported, and the next query is processed on the same client. The
  queries are the input lines after \<^verbatim>\<open>strip()\<close>.
\<close>

fun chat_loop :: "env \<Rightarrow> string list \<Rightarrow> client \<Rightarrow> (exn + string) list \<times> client" where
  "chat_loop env [] c = ([], c)"
| "chat_loop env (query # queries) c =
     (case process_query env query c of
        (result, c') \<Rightarrow>
          (case chat_loop env queries c' of (results, c'') \<Rightarrow> (result # results, c'')))"

text \<open>The frame after \<open>n\<close> iterations of the loop body that all went on to a next
  iteration; None when one of them broke or raised.\<close>

fun rounds :: "nat \<Rightarrow> env \<Rightarrow> json list \<Rightarrow> frame \<Rightarrow> frame option" where
  "rounds 0 env available_tools fr = Some fr"
| "rounds (Suc n) env available_tools fr =
     (case loop_body env available_tools fr of
        Continue fr' \<Rightarrow> rounds n env available_tools fr'
      | _ \<Rightarrow> None)"

text \<open>The frame an outcome of the loop body carries.\<close>

fun frame_of :: "outcome \<Rightarrow> frame" where
  "frame_of (Continue fr) = fr"
| "frame_of (Break fr) = fr"
| "frame_of (Raise e fr) = fr"

section \<open>An example session\<close>

text \<open>
  A tool server with the one tool \<^verbatim>\<open>search\<close>, and a model that answers from a script:
  the k-th completion request gets the k-th message of the script, and a connection error
  when the script is used up. A call of \<^verbatim>\<open>sleep\<close> stands for a call during which the
  task is cancelled; a call of another name is unknown to the server. The decoder knows the
  one payload of the examples and rejects the rest, with a RecursionError for 995 or more
  opening brackets (as CPython does with its default recursion limit) and a JSONDecodeError
  otherwise. The properties below are instantiated on it.
\<close>

definition quoted :: "string \<Rightarrow> string" where
  "quoted s = [CHR 0x22] @ s @ [CHR 0x22]"

definition search_args :: string where
  "search_args = ''{'' @ quoted ''query'' @ '': '' @ quoted ''martin moder'' @ ''}''"

definition search_tool :: tool where
  "search_tool = \<lparr>name = ''search'', description = None,
                   inputSchema = JDict [(''type'', JStr ''object'')]\<rparr>"

fun is_Create :: "event \<Rightarrow> bool" where
  "is_Create (Create rq) = True"
| "is_Create _ = False"

definition scripted :: "message list \<Rightarrow> event list \<Rightarrow> request \<Rightarrow> exn + message" where
  "scripted script tr rq =
     (let k = length (filter is_Create tr)
      in if k < length script then Inr (script ! k)
         else Inl (Exn IsException ''APIConnectionError'' ''Connection error.''))"

definition demo_env :: "message list \<Rightarrow> env" where
  "demo_env script = \<lparr>
     MODEL = ''openai/gpt-oss-120b:free'',
     session_list_tools = (\<lambda>tr. Inr [search_tool]),
     completions_create = scripted script,
     session_call_tool = (\<lambda>tr n args.
        if n = ''search'' then Inr (JList [JStr ''Martin Moder is a molecular biologist.''])
        else if n = ''sleep'' then Inl (Exn IsBaseException ''CancelledError'' [])
        else Inl (Exn IsException ''McpError'' (''Unknown tool: '' @ n))),
     json_loads = (\<lambda>s.
        if 995 \<le> length s \<and> set s = {CHR ''[''} then
          Inl (Exn IsException ''RecursionError''
                 ''maximum recursion depth exceeded while decoding a JSON array from a unicode string'')
        else if s = search_args then Inr (JDict [(''query'', JStr ''martin moder'')])
        else Inl (Exn IsJSONDecodeError ''JSONDecodeError''
                    ''Expecting property name enclosed in double quotes: line 1 column 2 (char 1)'')),
     py_str = (\<lambda>j. if j = JDict [] then ''{}'' else ''{...}'')\<rparr>"

definition search_call :: "string \<Rightarrow> tool_call" where
  "search_call i = \<lparr>tc_id = i, tc_name = ''search'', tc_arguments = Some search_args\<rparr>"

definition malformed_call :: tool_call where
  "malformed_call = \<lparr>tc_id = ''call_2'', tc_name = ''search'', tc_arguments = Some ''{oops''\<rparr>"

definition unknown_call :: tool_call where
  "unknown_call = \<lparr>tc_id = ''call_3'', tc_name = ''fetch'', tc_arguments = Some search_args\<rparr>"

definition nested_call :: tool_call where
  "nested_call = \<lparr>tc_id = ''call_9'', tc_name = ''search'',
                   tc_arguments = Some (replicate 995 (CHR ''[''))\<rparr>"

definition sleep_call :: tool_call where
  "sleep_call = \<lparr>tc_id = ''call_10'', tc_name = ''sleep'', tc_arguments = None\<rparr>"

definition bare_call :: tool_call where
  "bare_call = \<lparr>tc_id = ''call_4'', tc_name = ''search'', tc_arguments = None\<rparr>"

definition asks :: "tool_call list \<Rightarrow> message" where
  "asks tcs = \<lparr>content = None, tool_calls = Some tcs\<rparr>"

definition answers :: "string \<Rightarrow> message" where
  "answers s = \<lparr>content = Some s, tool_calls = None\<rparr>"

definition new_client :: client where
  "new_client = \<lparr>messages = [], trace = []\<rparr>"

definition start_frame :: "nat \<Rightarrow> message \<Rightarrow> frame" where
  "start_frame n r = \<lparr>self = new_client, response = r, final_text = [], tool_call_count = n\<rparr>"

fun is_CallTool :: "event \<Rightarrow> bool" where
  "is_CallTool (CallTool n args) = True"
| "is_CallTool _ = False"

definition demo_tools :: "json list" where
  "demo_tools = map convert_tool_format [search_tool]"

definition search_event :: event where
  "search_event = CallTool ''search'' (JDict [(''query'', JStr ''martin moder'')])"

text \<open>A script of two rounds, of three calls and of one call, and a final answer.\<close>

definition two_round_script :: "message list" where
  "two_round_script = [asks [search_call ''call_1'', malformed_call, unknown_call],
                       asks [search_call ''call_5''], answers ''done'']"

definition two_round_frame :: frame where
  "two_round_frame =
     \<lparr>self = \<lparr>messages = [Turn_system SYSTEM_PROMPT, Turn_user ''who is martin moder'',
                 Turn_assistant (asks [search_call ''call_1'', malformed_call, unknown_call])],
              trace = [ListTools,
                 Create \<lparr>model = ''openai/gpt-oss-120b:free'', tools = Some demo_tools,
                         max_tokens = None,
                         req_messages = [Turn_system SYSTEM_PROMPT,
                                         Turn_user ''who is martin moder'']\<rparr>]\<rparr>,
      response = asks [search_call ''call_1'', malformed_call, unknown_call],
      final_text = [], tool_call_count = 0\<rparr>"

text \<open>The frame after a first round in which the model asked for one search, when the
  model asks for the same search again.\<close>

definition repeated_frame :: frame where
  "repeated_frame =
     \<lparr>self = \<lparr>messages = [Turn_assistant (asks [search_call ''call_1'']),
                 Turn_tool ''call_1'' (JList [JStr ''Martin Moder is a molecular biologist.''])],
              trace = [search_event,
                 Create \<lparr>model = ''openai/gpt-oss-120b:free'', tools = Some demo_tools,
                         max_tokens = Some 1000,
                         req_messages = [Turn_assistant (asks [search_call ''call_1'']),
                           Turn_tool ''call_1''
                             (JList [JStr ''Martin Moder is a molecular biologist.''])]\<rparr>]\<rparr>,
      response = asks [search_call ''call_6''],
      final_text = [Some ''[Calling tool search with args {...}]''],
      tool_call_count = 1\<rparr>"

text \<open>A message that has a text and asks for a tool call as well.\<close>

definition late_answer :: message where
  "late_answer = \<lparr>content = Some ''He is a molecular biologist.'',
                   tool_calls = Some [search_call ''call_8'']\<rparr>"

text \<open>A message with neither text nor tool calls.\<close>

definition silent :: message where
  "silent = \<lparr>content = None, tool_calls = None\<rparr>"

text \<open>
  The same session with a model that never fails: after the script it gives a plain answer.
  Its decoder raises nothing but a JSONDecodeError and its tools raise nothing but an
  McpError.
\<close>

definition calm_env :: "message list \<Rightarrow> env" where
  "calm_env script = \<lparr>
     MODEL = ''openai/gpt-oss-120b:free'',
     session_list_tools = (\<lambda>tr. Inr [search_tool]),
     completions_create = (\<lambda>tr rq.
        if length (filter is_Create tr) < length script
        then Inr (script ! length (filter is_Create tr))
        else Inr (answers ''I could not look it up.'')),
     session_call_tool = (\<lambda>tr n args.
        if n = ''search'' then Inr (JList [JStr ''Martin Moder is a molecular biologist.''])
        else Inl (Exn IsException ''McpError'' (''Unknown tool: '' @ n))),
     json_loads = (\<lambda>s.
        if s = search_args then Inr (JDict [(''query'', JStr ''martin moder'')])
        else Inl (Exn IsJSONDecodeError ''JSONDecodeError''
                    ''Expecting property name enclosed in double quotes: line 1 column 2 (char 1)'')),
     py_str = (\<lambda>j. if j = JDict [] then ''{}'' else ''{...}'')\<rparr>"

text \<open>The frame in which the loop of the query \<^verbatim>\<open>who is martin moder\<close> starts when the
  model first asks for the unknown tool and for a search.\<close>

definition failing_frame :: frame where
  "failing_frame =
     \<lparr>self = \<lparr>messages = [Turn_system SYSTEM_PROMPT, Turn_user ''who is martin moder'',
                 Turn_assistant (asks [unknown_call, search_call ''call_11''])],
              trace = [ListTools,
                 Create \<lparr>model = ''openai/gpt-oss-120b:free'', tools = Some demo_tools,
                         max_tokens = None,
                         req_messages = [Turn_system SYSTEM_PROMPT,
                                         Turn_user ''who is martin moder'']\<rparr>]\<rparr>,
      response = asks [unknown_call, search_call ''call_11''],
      final_text = [], tool_call_count = 0\<rparr>"

text \<open>That frame when the for loop over the two calls starts.\<close>

definition failing_batch_frame :: frame where
  "failing_batch_frame =
     failing_frame\<lparr>self := append_message (Turn_assistant (response failing_frame))
                               (self failing_frame),
                   tool_call_count := tool_call_count failing_frame + 1\<rparr>"

section \<open>Properties of the tool registry adapter\<close>

lemma field_converted:
  "field (field (field (convert_tool_format t) ''function'') ''parameters'') k =
     (if k = ''type'' then JStr ''object''
      else if k = ''properties'' then py_or (field (inputSchema t) ''properties'') (JDict [])
      else if k = ''required'' then py_or (field (inputSchema t) ''required'') (JList [])
      else JNull)"
  by (cases "inputSchema t") (simp_all add: convert_tool_format_def dict_get_def py_or_def)

lemma field_client_converted:
  "field (field (client_convert_tool_format t) ''parameters'') k =
     (if k = ''type'' then JStr ''object''
      else if k = ''properties'' then py_or (field (inputSchema t) ''properties'') (JDict [])
      else if k = ''required'' then py_or (field (inputSchema t) ''required'') (JList [])
      else JNull)"
  by (cases "inputSchema t") (simp_all add: client_convert_tool_format_def dict_get_def py_or_def)

lemma py_or_not_null: "d \<noteq> JNull \<Longrightarrow> py_or x d \<noteq> JNull"
  by (cases x) (simp_all add: py_or_def)

lemma py_or_falsy: "\<not> truthy x \<Longrightarrow> py_or x d = d"
  by (simp add: py_or_def)

text \<open>
  C5. In both converters the \<^verbatim>\<open>properties\<close> and \<^verbatim>\<open>required\<close> of the converted
  parameters are never None. Where the schema gives no \<^verbatim>\<open>properties\<close> (the schema is
  not a dict, or lacks the key, or holds None or another falsy value there) the converted
  \<^verbatim>\<open>properties\<close> is the empty dict, and likewise \<^verbatim>\<open>required\<close> is the empty list. The
  converter of \<^verbatim>\<open>standard_client.py\<close> gives a string as description, the empty string
  when the tool has none.
\<close>

theorem convert_tool_format_defaults:
  "field (field (field (convert_tool_format t) ''function'') ''parameters'') ''properties'' \<noteq> JNull
   \<and> field (field (field (convert_tool_format t) ''function'') ''parameters'') ''required'' \<noteq> JNull
   \<and> field (field (client_convert_tool_format t) ''parameters'') ''properties'' \<noteq> JNull
   \<and> field (field (client_convert_tool_format t) ''parameters'') ''required'' \<noteq> JNull
   \<and> (\<not> truthy (field (inputSchema t) ''properties'') \<longrightarrow>
        field (field (field (convert_tool_format t) ''function'') ''parameters'') ''properties'' = JDict []
        \<and> field (field (client_convert_tool_format t) ''parameters'') ''properties'' = JDict [])
   \<and> (\<not> truthy (field (inputSchema t) ''required'') \<longrightarrow>
        field (field (field (convert_tool_format t) ''function'') ''parameters'') ''required'' = JList []
        \<and> field (field (client_convert_tool_format t) ''parameters'') ''required'' = JList [])
   \<and> (\<exists>d. field (field (convert_tool_format t) ''function'') ''description'' = JStr d)
   \<and> (description t = None \<longrightarrow>
        field (field (convert_tool_format t) ''function'') ''description'' = JStr [])"
proof -
  have d: "field (field (convert_tool_format t) ''function'') ''description''
             = JStr (str_or_empty (description t))"
    by (simp add: convert_tool_format_def dict_get_def Let_def)
  show ?thesis
    by (simp add: field_converted field_client_converted py_or_not_null py_or_falsy d)
qed

theorem convert_tool_format_defaults_witness:
  "\<not> truthy (field (inputSchema search_tool) ''properties'')
   \<and> \<not> truthy (field (inputSchema search_tool) ''required'')
   \<and> description search_tool = None
   \<and> field (field (field (convert_tool_format search_tool) ''function'') ''parameters'') ''properties'' = JDict []
   \<and> field (field (client_convert_tool_format search_tool) ''parameters'') ''properties'' = JDict []
   \<and> field (field (field (convert_tool_format search_tool) ''function'') ''parameters'') ''required'' = JList []
   \<and> field (field (client_convert_tool_format search_tool) ''parameters'') ''required'' = JList []
   \<and> field (field (convert_tool_format search_tool) ''function'') ''description'' = JStr []"
proof -
  have p: "\<not> truthy (field (inputSchema search_tool) ''properties'')"
    by (simp add: search_tool_def dict_get_def)
  have r: "\<not> truthy (field (inputSchema search_tool) ''required'')"
    by (simp add: search_tool_def dict_get_def)
  have n: "description search_tool = None"
    by (simp add: search_tool_def)
  show ?thesis
    using convert_tool_format_defaults [of search_tool] p r n by simp
qed

section \<open>Properties of one requested tool call\<close>

lemma process_tool_call_decode_error:
  assumes "decode_args env (tc_arguments tc) = Inl e" and "is_JSONDecodeError e"
  shows "process_tool_call env tc fr =
           (None,
            fr\<lparr>self := (self fr)\<lparr>messages := messages (self fr) @
               [Turn_tool (tc_id tc)
                  (JStr (''Error: Invalid JSON in tool arguments. Please try again with valid JSON. Details: '' @ exn_str e))]\<rparr>\<rparr>)"
  using assms by (simp add: process_tool_call_def Let_def append_message_def)

lemma process_tool_call_decode_escapes:
  assumes "decode_args env (tc_arguments tc) = Inl e" and "\<not> is_JSONDecodeError e"
  shows "process_tool_call env tc fr = (Some e, fr)"
  using assms by (simp add: process_tool_call_def Let_def)

lemma process_tool_call_raises:
  assumes "decode_args env (tc_arguments tc) = Inr args"
    and "session_call_tool env (trace (self fr)) (tc_name tc) args = Inl e"
    and "is_Exception e"
  shows "process_tool_call env tc fr =
           (None,
            fr\<lparr>self := \<lparr>messages = messages (self fr) @
                           [Turn_tool (tc_id tc) (JStr (''Error executing tool: '' @ exn_str e))],
                         trace = trace (self fr) @ [CallTool (tc_name tc) args]\<rparr>\<rparr>)"
  using assms by (simp add: process_tool_call_def Let_def append_message_def call_tool_def)

lemma process_tool_call_escapes:
  assumes "decode_args env (tc_arguments tc) = Inr args"
    and "session_call_tool env (trace (self fr)) (tc_name tc) args = Inl e"
    and "\<not> is_Exception e"
  shows "process_tool_call env tc fr =
           (Some e,
            fr\<lparr>self := \<lparr>messages = messages (self fr),
                         trace = trace (self fr) @ [CallTool (tc_name tc) args]\<rparr>\<rparr>)"
  using assms by (simp add: process_tool_call_def Let_def call_tool_def)

lemma process_tool_call_returns:
  assumes "decode_args env (tc_arguments tc) = Inr args"
    and "session_call_tool env (trace (self fr)) (tc_name tc) args = Inr r"
  shows "process_tool_call env tc fr =
           (None,
            fr\<lparr>self := \<lparr>messages = messages (self fr) @ [Turn_tool (tc_id tc) r],
                         trace = trace (self fr) @ [CallTool (tc_name tc) args]\<rparr>,
               final_text := final_text fr @
                 [Some (''[Calling tool '' @ tc_name tc @ '' with args '' @ py_str env args @ '']'')]\<rparr>)"
  using assms by (simp add: process_tool_call_def Let_def append_message_def call_tool_def)

lemma process_tool_call_trace:
  "trace (self (snd (process_tool_call env tc fr))) =
     (case decode_args env (tc_arguments tc) of
        Inl e \<Rightarrow> trace (self fr)
      | Inr args \<Rightarrow> trace (self fr) @ [CallTool (tc_name tc) args])"
  by (simp add: process_tool_call_def Let_def append_message_def call_tool_def split: sum.splits)

text \<open>
  C3 (as amended). A requested tool call whose payload is not empty and makes
  \<^verbatim>\<open>json.loads\<close> raise a JSONDecodeError leaves the trace as it is (the tool is not called)
  and appends exactly one tool turn, with the id of the call and the text of the error;
  nothing else of the frame changes, no exception leaves the loop, and the remaining calls of
  the batch are processed from there.
\<close>

theorem malformed_arguments_never_invoke:
  assumes "tc_arguments tc = Some raw" and "raw \<noteq> []"
    and "json_loads env raw = Inl e" and "is_JSONDecodeError e"
  shows "process_tool_call env tc fr =
           (None,
            fr\<lparr>self := (self fr)\<lparr>messages := messages (self fr) @
               [Turn_tool (tc_id tc)
                  (JStr (''Error: Invalid JSON in tool arguments. Please try again with valid JSON. Details: '' @ exn_str e))]\<rparr>\<rparr>)
         \<and> trace (self (snd (process_tool_call env tc fr))) = trace (self fr)
         \<and> process_tool_calls env (tc # rest) fr =
             process_tool_calls env rest
               (fr\<lparr>self := (self fr)\<lparr>messages := messages (self fr) @
                  [Turn_tool (tc_id tc)
                     (JStr (''Error: Invalid JSON in tool arguments. Please try again with valid JSON. Details: '' @ exn_str e))]\<rparr>\<rparr>)"
proof -
  from assms have d: "decode_args env (tc_arguments tc) = Inl e"
    by (simp add: decode_args_def)
  show ?thesis
    by (simp add: process_tool_call_decode_error [OF d assms(4)])
qed

theorem malformed_arguments_never_invoke_witness:
  "is_JSONDecodeError (Exn IsJSONDecodeError ''JSONDecodeError''
      ''Expecting property name enclosed in double quotes: line 1 column 2 (char 1)'')
   \<and> fst (process_tool_call (demo_env []) malformed_call (start_frame 0 (asks [malformed_call]))) = None
   \<and> trace (self (snd (process_tool_call (demo_env []) malformed_call (start_frame 0 (asks [malformed_call])))))
     = []
   \<and> messages (self (snd (process_tool_call (demo_env []) malformed_call (start_frame 0 (asks [malformed_call])))))
     = [Turn_tool ''call_2'' (JStr (''Error: Invalid JSON in tool arguments. Please try again with valid JSON. Details: '' @
          ''Expecting property name enclosed in double quotes: line 1 column 2 (char 1)''))]"
proof -
  have a: "tc_arguments malformed_call = Some ''{oops''"
    by (simp add: malformed_call_def)
  have b: "''{oops'' \<noteq> []"
    by simp
  have c: "json_loads (demo_env []) ''{oops''
             = Inl (Exn IsJSONDecodeError ''JSONDecodeError''
                 ''Expecting property name enclosed in double quotes: line 1 column 2 (char 1)'')"
    by (simp add: demo_env_def search_args_def quoted_def)
  have d: "is_JSONDecodeError (Exn IsJSONDecodeError ''JSONDecodeError''
      ''Expecting property name enclosed in double quotes: line 1 column 2 (char 1)'')"
    by (simp add: is_JSONDecodeError_def)
  show ?thesis
    using malformed_arguments_never_invoke
      [OF a b c d, of "start_frame 0 (asks [malformed_call])" "[]"] d
    by (simp add: start_frame_def new_client_def malformed_call_def)
qed

text \<open>
  C3 as it was stated fails: a payload of 995 opening brackets does not decode, but what
  \<^verbatim>\<open>json.loads\<close> raises on it is a RecursionError, which the client does not catch. No
  tool turn is appended for the call, the call after it in the batch is not processed, and
  the exception leaves \<^verbatim>\<open>process_query\<close>.
\<close>

theorem undecodable_arguments_escape:
  "process_tool_call (demo_env []) nested_call
       (start_frame 0 (asks [nested_call, search_call ''call_12''])) =
     (Some (Exn IsException ''RecursionError''
              ''maximum recursion depth exceeded while decoding a JSON array from a unicode string''),
      start_frame 0 (asks [nested_call, search_call ''call_12'']))
   \<and> fst (process_query (demo_env [asks [nested_call, search_call ''call_12'']]) ''hello'' new_client) =
       Inl (Exn IsException ''RecursionError''
              ''maximum recursion depth exceeded while decoding a JSON array from a unicode string'')
   \<and> messages (snd (process_query (demo_env [asks [nested_call, search_call ''call_12'']]) ''hello'' new_client)) =
       [Turn_system SYSTEM_PROMPT, Turn_user ''hello'',
        Turn_assistant (asks [nested_call, search_call ''call_12'']),
        Turn_assistant (asks [nested_call, search_call ''call_12''])]
   \<and> filter is_CallTool
        (trace (snd (process_query (demo_env [asks [nested_call, search_call ''call_12'']]) ''hello'' new_client))) = []"
proof -
  have d: "decode_args (demo_env []) (tc_arguments nested_call) =
             Inl (Exn IsException ''RecursionError''
              ''maximum recursion depth exceeded while decoding a JSON array from a unicode string'')"
    by (simp add: decode_args_def demo_env_def nested_call_def)
  have n: "\<not> is_JSONDecodeError (Exn IsException ''RecursionError''
              ''maximum recursion depth exceeded while decoding a JSON array from a unicode string'')"
    by (simp add: is_JSONDecodeError_def)
  have q: "process_query (demo_env [asks [nested_call, search_call ''call_12'']]) ''hello'' new_client =
      (Inl (Exn IsException ''RecursionError''
              ''maximum recursion depth exceeded while decoding a JSON array from a unicode string''),
       \<lparr>messages = [Turn_system SYSTEM_PROMPT, Turn_user ''hello'',
          Turn_assistant (asks [nested_call, search_call ''call_12'']),
          Turn_assistant (asks [nested_call, search_call ''call_12''])],
        trace = [ListTools,
                 Create \<lparr>model = ''openai/gpt-oss-120b:free'', tools = Some demo_tools,
                         max_tokens = None,
                         req_messages = [Turn_system SYSTEM_PROMPT, Turn_user ''hello'']\<rparr>]\<rparr>)"
    by (simp add: process_query_def enter_loop_def while_loop.simps loop_body_def
          process_tool_call_def decode_args_def is_JSONDecodeError_def
          append_message_def list_tools_def create_def Let_def MAX_TOOL_CALLS_def
          demo_env_def scripted_def nested_call_def asks_def new_client_def demo_tools_def)
  show ?thesis
    by (simp add: process_tool_call_decode_escapes [OF d n] q)
qed

text \<open>
  C10. A requested tool call whose payload is None or the empty string decodes to the empty
  dict without \<^verbatim>\<open>json.loads\<close> being consulted, and the tool is called with the empty dict:
  the call is logged, and its result, or the text of its exception when that is an
  \<^verbatim>\<open>Exception\<close>, is appended as the tool turn of the call.
\<close>

theorem empty_arguments_invoke_with_empty_dict:
  assumes "tc_arguments tc = None \<or> tc_arguments tc = Some []"
  shows "decode_args env (tc_arguments tc) = Inr (JDict [])
         \<and> trace (self (snd (process_tool_call env tc fr))) =
             trace (self fr) @ [CallTool (tc_name tc) (JDict [])]
         \<and> messages (self (snd (process_tool_call env tc fr))) =
             (case session_call_tool env (trace (self fr)) (tc_name tc) (JDict []) of
                Inr r \<Rightarrow> messages (self fr) @ [Turn_tool (tc_id tc) r]
              | Inl e \<Rightarrow>
                  if is_Exception e
                  then messages (self fr) @
                         [Turn_tool (tc_id tc) (JStr (''Error executing tool: '' @ exn_str e))]
                  else messages (self fr))"
proof -
  from assms have d: "decode_args env (tc_arguments tc) = Inr (JDict [])"
    by (auto simp: decode_args_def)
  show ?thesis
  proof (cases "session_call_tool env (trace (self fr)) (tc_name tc) (JDict [])")
    case (Inl e)
    show ?thesis
    proof (cases "is_Exception e")
      case True
      show ?thesis by (simp add: d Inl True process_tool_call_raises [OF d Inl True])
    next
      case False
      show ?thesis by (simp add: d Inl False process_tool_call_escapes [OF d Inl False])
    qed
  next
    case (Inr r)
    show ?thesis by (simp add: d Inr process_tool_call_returns [OF d Inr])
  qed
qed

theorem empty_arguments_invoke_with_empty_dict_witness:
  "tc_arguments bare_call = None
   \<and> trace (self (snd (process_tool_call (demo_env []) bare_call (start_frame 0 (asks [bare_call])))))
       = [CallTool ''search'' (JDict [])]
   \<and> messages (self (snd (process_tool_call (demo_env []) bare_call (start_frame 0 (asks [bare_call])))))
       = [Turn_tool ''call_4'' (JList [JStr ''Martin Moder is a molecular biologist.''])]"
proof -
  have a: "tc_arguments bare_call = None \<or> tc_arguments bare_call = Some []"
    by (simp add: bare_call_def)
  show ?thesis
    using empty_arguments_invoke_with_empty_dict
      [OF a, of "demo_env []" "start_frame 0 (asks [bare_call])"]
    by (simp add: start_frame_def new_client_def bare_call_def demo_env_def)
qed

section \<open>Evaluating the example session\<close>

lemmas demo_defs = demo_env_def scripted_def search_tool_def search_call_def malformed_call_def
  unknown_call_def bare_call_def asks_def answers_def new_client_def start_frame_def
  search_args_def quoted_def search_event_def

lemmas run_defs = loop_body_def process_tool_call_def decode_args_def is_JSONDecodeError_def
  is_Exception_def append_message_def list_tools_def create_def call_tool_def Let_def
  MAX_TOOL_CALLS_def

section \<open>The round counter\<close>

lemma process_tool_call_count:
  "process_tool_call env tc fr = (r, fr') \<Longrightarrow> tool_call_count fr' = tool_call_count fr"
  by (auto simp: process_tool_call_def Let_def split: sum.splits prod.splits if_splits)

lemma process_tool_calls_count:
  "process_tool_calls env tcs fr = (r, fr') \<Longrightarrow> tool_call_count fr' = tool_call_count fr"
proof (induction tcs arbitrary: fr)
  case Nil
  then show ?case by simp
next
  case (Cons tc tcs)
  obtain r1 f1 where p: "process_tool_call env tc fr = (r1, f1)"
    by (cases "process_tool_call env tc fr")
  from process_tool_call_count [OF p] have c: "tool_call_count f1 = tool_call_count fr" .
  show ?case
  proof (cases r1)
    case None
    with Cons.prems p have "process_tool_calls env tcs f1 = (r, fr')" by simp
    from Cons.IH [OF this] c show ?thesis by simp
  next
    case (Some e)
    with Cons.prems p c show ?thesis by simp
  qed
qed

lemma loop_body_Continue:
  assumes "loop_body env available_tools fr = Continue fr'"
  shows "tool_call_count fr < MAX_TOOL_CALLS \<and> tool_call_count fr' = tool_call_count fr + 1"
  using assms
  by (auto simp: loop_body_def Let_def
           split: if_splits option.splits sum.splits prod.splits
           dest: process_tool_calls_count)

lemma rounds_count:
  "rounds n env available_tools fr = Some fr' \<Longrightarrow> tool_call_count fr' = tool_call_count fr + n"
proof (induction n arbitrary: fr)
  case 0
  then show ?case by simp
next
  case (Suc n)
  from Suc.prems obtain fr1 where
    b: "loop_body env available_tools fr = Continue fr1" and
    r: "rounds n env available_tools fr1 = Some fr'"
    by (auto split: outcome.splits)
  from Suc.IH [OF r] loop_body_Continue [OF b] show ?case by simp
qed

lemma rounds_while_loop:
  "rounds n env available_tools fr = Some fr' \<Longrightarrow>
     while_loop env available_tools fr = while_loop env available_tools fr'"
proof (induction n arbitrary: fr)
  case 0
  then show ?case by simp
next
  case (Suc n)
  from Suc.prems obtain fr1 where
    b: "loop_body env available_tools fr = Continue fr1" and
    r: "rounds n env available_tools fr1 = Some fr'"
    by (auto split: outcome.splits)
  have "while_loop env available_tools fr = while_loop env available_tools fr1"
    using b by (simp add: while_loop.simps [of env available_tools fr])
  with Suc.IH [OF r] show ?case by simp
qed

lemma enter_loop_count:
  "enter_loop env query c = Inr (available_tools, fr) \<Longrightarrow>
     tool_call_count fr = 0 \<and> final_text fr = []"
  by (auto simp: enter_loop_def Let_def split: sum.splits prod.splits)

text \<open>
  C2. The loop starts with the round counter at zero. After \<open>n\<close> iterations of the loop
  body that each processed a batch of tool calls and went on, the counter is \<open>n\<close>, whatever
  the number of calls in the batches; the loop continues from that frame.
\<close>

theorem round_counter_counts_batches:
  assumes "enter_loop env query c = Inr (available_tools, fr0)"
    and "rounds n env available_tools fr0 = Some fr"
  shows "tool_call_count fr0 = 0 \<and> tool_call_count fr = n
         \<and> while_loop env available_tools fr0 = while_loop env available_tools fr"
  using enter_loop_count [OF assms(1)] rounds_count [OF assms(2)] rounds_while_loop [OF assms(2)]
  by simp

theorem round_counter_counts_batches_witness:
  "(case enter_loop (demo_env two_round_script) ''who is martin moder'' new_client of
      Inl x \<Rightarrow> False
    | Inr (ts, fr0) \<Rightarrow>
        (case rounds 2 (demo_env two_round_script) ts fr0 of
           None \<Rightarrow> False
         | Some fr \<Rightarrow>
             tool_call_count fr = 2 \<and> length (filter is_CallTool (trace (self fr))) = 3))"
proof -
  have a: "enter_loop (demo_env two_round_script) ''who is martin moder'' new_client
             = Inr (demo_tools, two_round_frame)"
    by (simp add: enter_loop_def list_tools_def create_def append_message_def Let_def
          demo_env_def scripted_def new_client_def two_round_script_def two_round_frame_def
          demo_tools_def)
  have "\<exists>fr. rounds 2 (demo_env two_round_script) demo_tools two_round_frame = Some fr
              \<and> length (filter is_CallTool (trace (self fr))) = 3"
    by (simp add: numeral_2_eq_2 two_round_frame_def two_round_script_def demo_defs run_defs)
  then obtain fr where
    b: "rounds 2 (demo_env two_round_script) demo_tools two_round_frame = Some fr" and
    c: "length (filter is_CallTool (trace (self fr))) = 3"
    by blast
  from round_counter_counts_batches [OF a b] have "tool_call_count fr = 2"
    by simp
  with c show ?thesis
    by (simp add: a b)
qed

section \<open>The round limit\<close>

text \<open>
  C1. When the loop body inspects a response with the round counter at the maximum (5) or
  above, it appends the response and a user turn with the instruction to answer, requests
  one completion without tools, and breaks: the loop returns with the text of that
  completion (the empty string when it has none) as the last item of the final text,
  whatever tool calls the inspected response or the last completion ask for. The request
  is the only call made.
\<close>

theorem forced_final_at_round_limit:
  assumes "MAX_TOOL_CALLS \<le> tool_call_count fr"
    and "rq = \<lparr>model = MODEL env, tools = None, max_tokens = Some 1000,
               req_messages = messages (self fr) @
                 [Turn_assistant (response fr), Turn_user FINAL_PROMPT]\<rparr>"
    and "completions_create env (trace (self fr)) rq = Inr final_response"
  shows "loop_body env available_tools fr =
           Break (fr\<lparr>self := \<lparr>messages = req_messages rq,
                               trace = trace (self fr) @ [Create rq]\<rparr>,
                     final_text := final_text fr @
                       [Some STOPPED_TEXT, Some (str_or_empty (content final_response))]\<rparr>)
         \<and> while_loop env available_tools fr =
             (Inr (final_text fr @
                     [Some STOPPED_TEXT, Some (str_or_empty (content final_response))]),
              \<lparr>messages = req_messages rq, trace = trace (self fr) @ [Create rq]\<rparr>)"
proof -
  have b: "loop_body env available_tools fr =
           Break (fr\<lparr>self := \<lparr>messages = req_messages rq,
                               trace = trace (self fr) @ [Create rq]\<rparr>,
                     final_text := final_text fr @
                       [Some STOPPED_TEXT, Some (str_or_empty (content final_response))]\<rparr>)"
    using assms by (simp add: loop_body_def Let_def append_message_def create_def)
  show ?thesis
    by (simp add: b while_loop.simps [of env available_tools fr])
qed

theorem forced_final_at_round_limit_witness:
  "MAX_TOOL_CALLS \<le> tool_call_count (start_frame 5 (asks [search_call ''call_7'']))
   \<and> while_loop (demo_env [late_answer]) demo_tools (start_frame 5 (asks [search_call ''call_7''])) =
       (Inr [Some ''[Stopped: exceeded maximum of 5 tool call rounds]'',
             Some ''He is a molecular biologist.''],
        \<lparr>messages = [Turn_assistant (asks [search_call ''call_7'']), Turn_user FINAL_PROMPT],
         trace = [Create \<lparr>model = ''openai/gpt-oss-120b:free'', tools = None,
                          max_tokens = Some 1000,
                          req_messages = [Turn_assistant (asks [search_call ''call_7'']),
                                          Turn_user FINAL_PROMPT]\<rparr>]\<rparr>)"
proof -
  have a: "MAX_TOOL_CALLS \<le> tool_call_count (start_frame 5 (asks [search_call ''call_7'']))"
    by (simp add: MAX_TOOL_CALLS_def start_frame_def)
  have b: "\<lparr>model = ''openai/gpt-oss-120b:free'', tools = None, max_tokens = Some 1000,
            req_messages = [Turn_assistant (asks [search_call ''call_7'']), Turn_user FINAL_PROMPT]\<rparr>
           = \<lparr>model = MODEL (demo_env [late_answer]), tools = None, max_tokens = Some 1000,
              req_messages = messages (self (start_frame 5 (asks [search_call ''call_7''])))
                @ [Turn_assistant (response (start_frame 5 (asks [search_call ''call_7'']))),
                   Turn_user FINAL_PROMPT]\<rparr>"
    by (simp add: demo_env_def start_frame_def new_client_def)
  have c: "completions_create (demo_env [late_answer])
             (trace (self (start_frame 5 (asks [search_call ''call_7'']))))
             \<lparr>model = ''openai/gpt-oss-120b:free'', tools = None, max_tokens = Some 1000,
              req_messages = [Turn_assistant (asks [search_call ''call_7'']), Turn_user FINAL_PROMPT]\<rparr>
           = Inr late_answer"
    by (simp add: demo_env_def scripted_def start_frame_def new_client_def)
  show ?thesis
    using forced_final_at_round_limit [OF a b c, of demo_tools]
    by (simp add: a start_frame_def new_client_def late_answer_def STOPPED_TEXT_def
          MAX_TOOL_CALLS_def str_nat.simps)
qed

section \<open>Calls are not deduplicated\<close>

lemma prefix_count_list:
  "prefix xs ys \<Longrightarrow> count_list xs ev \<le> count_list ys ev"
  by (auto simp: prefix_def)

lemma process_tool_call_trace_prefix:
  "prefix (trace (self fr)) (trace (self (snd (process_tool_call env tc fr))))"
  by (simp add: process_tool_call_trace split: sum.splits)

lemma process_tool_calls_trace_prefix:
  "prefix (trace (self fr)) (trace (self (snd (process_tool_calls env tcs fr))))"
proof (induction tcs arbitrary: fr)
  case Nil
  show ?case by simp
next
  case (Cons tc tcs)
  obtain r1 f1 where p: "process_tool_call env tc fr = (r1, f1)"
    by (cases "process_tool_call env tc fr")
  have one: "prefix (trace (self fr)) (trace (self f1))"
    using process_tool_call_trace_prefix [of fr env tc] p by simp
  show ?case
  proof (cases r1)
    case None
    have "prefix (trace (self f1)) (trace (self (snd (process_tool_calls env tcs f1))))"
      by (rule Cons.IH)
    with one have "prefix (trace (self fr)) (trace (self (snd (process_tool_calls env tcs f1))))"
      by (rule prefix_order.trans)
    with p None show ?thesis by simp
  next
    case (Some e)
    with p one show ?thesis by simp
  qed
qed

lemma process_tool_calls_invokes:
  assumes "tc \<in> set tcs" and "decode_args env (tc_arguments tc) = Inr args"
    and "fst (process_tool_calls env tcs fr) = None"
  shows "Suc (count_list (trace (self fr)) (CallTool (tc_name tc) args))
           \<le> count_list (trace (self (snd (process_tool_calls env tcs fr))))
                (CallTool (tc_name tc) args)"
  using assms(1,3)
proof (induction tcs arbitrary: fr)
  case Nil
  then show ?case by simp
next
  case (Cons t tcs)
  obtain r1 f1 where p: "process_tool_call env t fr = (r1, f1)"
    by (cases "process_tool_call env t fr")
  from Cons.prems(2) p have r1: "r1 = None"
    by (cases r1) simp_all
  with Cons.prems(2) p have rest: "fst (process_tool_calls env tcs f1) = None"
    by simp
  have all: "process_tool_calls env (t # tcs) fr = process_tool_calls env tcs f1"
    using p r1 by simp
  show ?case
  proof (cases "t = tc")
    case True
    have "trace (self f1) = trace (self fr) @ [CallTool (tc_name tc) args]"
      using process_tool_call_trace [of env tc fr] p True assms(2) by simp
    then have "Suc (count_list (trace (self fr)) (CallTool (tc_name tc) args))
            = count_list (trace (self f1)) (CallTool (tc_name tc) args)"
      by simp
    also have "\<dots> \<le> count_list (trace (self (snd (process_tool_calls env tcs f1))))
                         (CallTool (tc_name tc) args)"
      by (rule prefix_count_list [OF process_tool_calls_trace_prefix])
    finally show ?thesis using all by simp
  next
    case False
    with Cons.prems(1) have "tc \<in> set tcs" by simp
    from Cons.IH [OF this rest]
    have "Suc (count_list (trace (self f1)) (CallTool (tc_name tc) args))
            \<le> count_list (trace (self (snd (process_tool_calls env tcs f1))))
                 (CallTool (tc_name tc) args)" .
    moreover have "count_list (trace (self fr)) (CallTool (tc_name tc) args)
            \<le> count_list (trace (self f1)) (CallTool (tc_name tc) args)"
      using prefix_count_list [OF process_tool_call_trace_prefix [of fr env t]] p by simp
    ultimately show ?thesis using all by simp
  qed
qed

lemma loop_body_batch:
  assumes "tool_call_count fr < MAX_TOOL_CALLS" and "tool_calls (response fr) = Some tcs"
    and "process_tool_calls env tcs
           (fr\<lparr>self := append_message (Turn_assistant (response fr)) (self fr),
               tool_call_count := tool_call_count fr + 1\<rparr>) = (r, fr3)"
  shows "loop_body env available_tools fr =
           (case r of
              Some e \<Rightarrow> Raise e fr3
            | None \<Rightarrow>
                (case completions_create env (trace (self fr3))
                        \<lparr>model = MODEL env, tools = Some available_tools,
                         max_tokens = Some 1000, req_messages = messages (self fr3)\<rparr> of
                   Inl e \<Rightarrow> Raise e (fr3\<lparr>self := (self fr3)\<lparr>trace := trace (self fr3) @
                              [Create \<lparr>model = MODEL env, tools = Some available_tools,
                                       max_tokens = Some 1000,
                                       req_messages = messages (self fr3)\<rparr>]\<rparr>\<rparr>)
                 | Inr m \<Rightarrow> Continue (fr3\<lparr>self := (self fr3)\<lparr>trace := trace (self fr3) @
                              [Create \<lparr>model = MODEL env, tools = Some available_tools,
                                       max_tokens = Some 1000,
                                       req_messages = messages (self fr3)\<rparr>]\<rparr>,
                              response := m\<rparr>)))"
  using assms
  by (simp add: loop_body_def Let_def create_def split: option.splits sum.splits)

lemma loop_body_invokes:
  assumes "tool_call_count fr < MAX_TOOL_CALLS" and "tool_calls (response fr) = Some tcs"
    and "tc \<in> set tcs" and "decode_args env (tc_arguments tc) = Inr args"
    and "fst (process_tool_calls env tcs
           (fr\<lparr>self := append_message (Turn_assistant (response fr)) (self fr),
               tool_call_count := tool_call_count fr + 1\<rparr>)) = None"
  shows "Suc (count_list (trace (self fr)) (CallTool (tc_name tc) args))
           \<le> count_list (trace (self (frame_of (loop_body env available_tools fr))))
                (CallTool (tc_name tc) args)"
proof -
  obtain fr3 where b: "process_tool_calls env tcs
           (fr\<lparr>self := append_message (Turn_assistant (response fr)) (self fr),
               tool_call_count := tool_call_count fr + 1\<rparr>) = (None, fr3)"
    using assms(5) by (metis prod.collapse)
  have "Suc (count_list (trace (self fr)) (CallTool (tc_name tc) args))
          \<le> count_list (trace (self fr3)) (CallTool (tc_name tc) args)"
    using process_tool_calls_invokes [OF assms(3,4,5)] b
    by (simp add: append_message_def)
  also have "\<dots> \<le> count_list (trace (self (frame_of (loop_body env available_tools fr))))
                (CallTool (tc_name tc) args)"
    by (simp add: loop_body_batch [OF assms(1,2) b] split: sum.splits)
  finally show ?thesis .
qed

lemma loop_body_trace_prefix:
  "prefix (trace (self fr)) (trace (self (frame_of (loop_body env available_tools fr))))"
proof (cases "MAX_TOOL_CALLS \<le> tool_call_count fr")
  case True
  then show ?thesis
    by (simp add: loop_body_def Let_def create_def append_message_def split: sum.splits)
next
  case False
  show ?thesis
  proof (cases "tool_calls (response fr)")
    case None
    with False show ?thesis
      by (simp add: loop_body_def Let_def append_message_def)
  next
    case (Some tcs)
    from False have lim: "tool_call_count fr < MAX_TOOL_CALLS" by simp
    obtain r fr3 where b: "process_tool_calls env tcs
           (fr\<lparr>self := append_message (Turn_assistant (response fr)) (self fr),
               tool_call_count := tool_call_count fr + 1\<rparr>) = (r, fr3)"
      by (metis prod.collapse)
    have one: "prefix (trace (self fr)) (trace (self fr3))"
      using process_tool_calls_trace_prefix
        [of "fr\<lparr>self := append_message (Turn_assistant (response fr)) (self fr),
                   tool_call_count := tool_call_count fr + 1\<rparr>" env tcs] b
      by (simp add: append_message_def)
    have two: "prefix (trace (self fr3)) (trace (self (frame_of (loop_body env available_tools fr))))"
      by (simp add: loop_body_batch [OF lim Some b] split: option.splits sum.splits)
    from one two show ?thesis
      by (rule prefix_order.trans)
  qed
qed

lemma rounds_calls_mono:
  "rounds n env available_tools fr = Some fr' \<Longrightarrow>
     count_list (trace (self fr)) ev \<le> count_list (trace (self fr')) ev"
proof (induction n arbitrary: fr)
  case 0
  then show ?case by simp
next
  case (Suc n)
  from Suc.prems obtain fr1 where
    b: "loop_body env available_tools fr = Continue fr1" and
    r: "rounds n env available_tools fr1 = Some fr'"
    by (auto split: outcome.splits)
  have "count_list (trace (self fr)) ev \<le> count_list (trace (self fr1)) ev"
    using prefix_count_list [OF loop_body_trace_prefix [of fr env available_tools]] b by simp
  also have "\<dots> \<le> count_list (trace (self fr')) ev"
    by (rule Suc.IH [OF r])
  finally show ?case .
qed

lemma process_tool_calls_append:
  "process_tool_calls env (pre @ tcs) fr =
     (case process_tool_calls env pre fr of
        (None, fr') \<Rightarrow> process_tool_calls env tcs fr'
      | (Some e, fr') \<Rightarrow> (Some e, fr'))"
  by (induction pre arbitrary: fr) (auto split: prod.splits option.splits)

lemma process_tool_calls_reaches:
  assumes "fst (process_tool_calls env pre fr) = None"
    and "decode_args env (tc_arguments tc) = Inr args"
  shows "Suc (count_list (trace (self fr)) (CallTool (tc_name tc) args))
           \<le> count_list (trace (self (snd (process_tool_calls env (pre @ tc # rest) fr))))
                (CallTool (tc_name tc) args)"
proof -
  obtain f1 where p: "process_tool_calls env pre fr = (None, f1)"
    using assms(1) by (metis prod.collapse)
  obtain r2 f2 where q: "process_tool_call env tc f1 = (r2, f2)"
    by (cases "process_tool_call env tc f1")
  have t2: "trace (self f2) = trace (self f1) @ [CallTool (tc_name tc) args]"
    using process_tool_call_trace [of env tc f1] q assms(2) by simp
  have "count_list (trace (self fr)) (CallTool (tc_name tc) args)
          \<le> count_list (trace (self f1)) (CallTool (tc_name tc) args)"
    using prefix_count_list [OF process_tool_calls_trace_prefix [of fr env pre]] p by simp
  then have "Suc (count_list (trace (self fr)) (CallTool (tc_name tc) args))
          \<le> count_list (trace (self f2)) (CallTool (tc_name tc) args)"
    by (simp add: t2)
  also have "\<dots> \<le> count_list (trace (self (snd (process_tool_calls env (tc # rest) f1))))
                (CallTool (tc_name tc) args)"
  proof (cases r2)
    case None
    with q show ?thesis
      using prefix_count_list [OF process_tool_calls_trace_prefix [of f2 env rest]] by simp
  next
    case (Some e)
    with q show ?thesis by simp
  qed
  finally show ?thesis
    using p by (simp add: process_tool_calls_append)
qed

lemma loop_body_batch_trace_prefix:
  assumes "tool_call_count fr < MAX_TOOL_CALLS" and "tool_calls (response fr) = Some tcs"
  shows "prefix (trace (self (snd (process_tool_calls env tcs
                   (fr\<lparr>self := append_message (Turn_assistant (response fr)) (self fr),
                       tool_call_count := tool_call_count fr + 1\<rparr>)))))
           (trace (self (frame_of (loop_body env available_tools fr))))"
proof -
  obtain r fr3 where b: "process_tool_calls env tcs
           (fr\<lparr>self := append_message (Turn_assistant (response fr)) (self fr),
               tool_call_count := tool_call_count fr + 1\<rparr>) = (r, fr3)"
    by (metis prod.collapse)
  have two: "prefix (trace (self fr3))
               (trace (self (frame_of (loop_body env available_tools fr))))"
    by (simp add: loop_body_batch [OF assms b] split: option.splits sum.splits)
  show ?thesis
    unfolding b snd_conv by (rule two)
qed

lemma loop_body_Continue_batch:
  assumes "loop_body env available_tools fr = Continue fr1"
    and "tool_calls (response fr) = Some tcs"
  shows "tool_call_count fr < MAX_TOOL_CALLS
         \<and> fst (process_tool_calls env tcs
              (fr\<lparr>self := append_message (Turn_assistant (response fr)) (self fr),
                  tool_call_count := tool_call_count fr + 1\<rparr>)) = None"
  using assms
  by (auto simp: loop_body_def Let_def split: if_splits option.splits sum.splits prod.splits)

text \<open>
  C9. When the model asks for a tool with arguments that decode to \<open>args\<close> in one round, and
  in a later round, below the round limit, asks for the same tool with arguments that decode
  to the same \<open>args\<close>, the tool is called again: the trace after the later round holds at
  least two more calls of the tool with \<open>args\<close> than the trace before the earlier round. The
  later call is one that the loop reaches: no call before it in its batch raises an
  exception that the client does not catch.
\<close>

theorem no_deduplication_of_tool_calls:
  assumes "tool_calls (response fr) = Some tcs" and "tc \<in> set tcs"
    and "decode_args env (tc_arguments tc) = Inr args"
    and "loop_body env available_tools fr = Continue fr1"
    and "rounds k env available_tools fr1 = Some fr2"
    and "tool_call_count fr2 < MAX_TOOL_CALLS"
    and "tool_calls (response fr2) = Some tcs'" and "tc' \<in> set tcs'"
    and "tc_name tc' = tc_name tc"
    and "decode_args env (tc_arguments tc') = Inr args"
    and "tcs' = pre' @ tc' # rest'"
    and "fst (process_tool_calls env pre'
           (fr2\<lparr>self := append_message (Turn_assistant (response fr2)) (self fr2),
                tool_call_count := tool_call_count fr2 + 1\<rparr>)) = None"
  shows "count_list (trace (self fr)) (CallTool (tc_name tc) args) + 2
           \<le> count_list (trace (self (frame_of (loop_body env available_tools fr2))))
                (CallTool (tc_name tc) args)"
proof -
  from loop_body_Continue_batch [OF assms(4,1)] have
    lim: "tool_call_count fr < MAX_TOOL_CALLS" and
    ok: "fst (process_tool_calls env tcs
              (fr\<lparr>self := append_message (Turn_assistant (response fr)) (self fr),
                  tool_call_count := tool_call_count fr + 1\<rparr>)) = None"
    by simp_all
  have "Suc (count_list (trace (self fr)) (CallTool (tc_name tc) args))
          \<le> count_list (trace (self fr1)) (CallTool (tc_name tc) args)"
    using loop_body_invokes [OF lim assms(1,2,3) ok, of available_tools] assms(4) by simp
  also have "\<dots> \<le> count_list (trace (self fr2)) (CallTool (tc_name tc) args)"
    by (rule rounds_calls_mono [OF assms(5)])
  finally have one: "Suc (count_list (trace (self fr)) (CallTool (tc_name tc) args))
          \<le> count_list (trace (self fr2)) (CallTool (tc_name tc) args)" .
  let ?b = "fr2\<lparr>self := append_message (Turn_assistant (response fr2)) (self fr2),
                tool_call_count := tool_call_count fr2 + 1\<rparr>"
  have "Suc (count_list (trace (self fr2)) (CallTool (tc_name tc') args))
          \<le> count_list (trace (self (snd (process_tool_calls env (pre' @ tc' # rest') ?b))))
               (CallTool (tc_name tc') args)"
    using process_tool_calls_reaches [OF assms(12,10), of rest']
    by (simp add: append_message_def)
  also have "\<dots> \<le> count_list (trace (self (frame_of (loop_body env available_tools fr2))))
               (CallTool (tc_name tc') args)"
    using prefix_count_list [OF loop_body_batch_trace_prefix [OF assms(6,7)]] assms(11)
    by simp
  finally show ?thesis
    using one by (simp add: assms(9))
qed

theorem no_deduplication_of_tool_calls_witness:
  "loop_body (demo_env [asks [search_call ''call_6''], answers ''done'']) demo_tools
      (start_frame 0 (asks [search_call ''call_1''])) = Continue repeated_frame
   \<and> count_list (trace (self repeated_frame)) search_event = 1
   \<and> 2 \<le> count_list
        (trace (self (frame_of
           (loop_body (demo_env [asks [search_call ''call_6''], answers ''done'']) demo_tools
              repeated_frame))))
        search_event"
proof -
  let ?E = "demo_env [asks [search_call ''call_6''], answers ''done'']"
  let ?fr = "start_frame 0 (asks [search_call ''call_1''])"
  let ?args = "JDict [(''query'', JStr ''martin moder'')]"
  have h1: "tool_calls (response ?fr) = Some [search_call ''call_1'']"
    by (simp add: start_frame_def asks_def)
  have h2: "search_call ''call_1'' \<in> set [search_call ''call_1'']"
    by simp
  have h3: "decode_args ?E (tc_arguments (search_call ''call_1'')) = Inr ?args"
    by (simp add: decode_args_def demo_env_def search_call_def search_args_def quoted_def)
  have h4: "loop_body ?E demo_tools ?fr = Continue repeated_frame"
    by (simp add: repeated_frame_def demo_defs run_defs)
  have h5: "rounds 0 ?E demo_tools repeated_frame = Some repeated_frame"
    by simp
  have h6: "tool_call_count repeated_frame < MAX_TOOL_CALLS"
    by (simp add: repeated_frame_def MAX_TOOL_CALLS_def)
  have h7: "tool_calls (response repeated_frame) = Some [search_call ''call_6'']"
    by (simp add: repeated_frame_def asks_def)
  have h8: "search_call ''call_6'' \<in> set [search_call ''call_6'']"
    by simp
  have h9: "tc_name (search_call ''call_6'') = tc_name (search_call ''call_1'')"
    by (simp add: search_call_def)
  have h10: "decode_args ?E (tc_arguments (search_call ''call_6'')) = Inr ?args"
    by (simp add: decode_args_def demo_env_def search_call_def search_args_def quoted_def)
  have h11: "[search_call ''call_6''] = [] @ search_call ''call_6'' # []"
    by simp
  have h12: "fst (process_tool_calls ?E []
           (repeated_frame\<lparr>self := append_message (Turn_assistant (response repeated_frame))
                                     (self repeated_frame),
                tool_call_count := tool_call_count repeated_frame + 1\<rparr>)) = None"
    by simp
  have n: "tc_name (search_call ''call_1'') = ''search''"
    by (simp add: search_call_def)
  have c: "count_list (trace (self repeated_frame)) search_event = 1"
    by (simp add: repeated_frame_def search_event_def)
  show ?thesis
    using no_deduplication_of_tool_calls [OF h1 h2 h3 h4 h5 h6 h7 h8 h9 h10 h11 h12] h4 c
    by (simp add: n search_event_def)
qed

section \<open>The conversation is append-only\<close>

lemma process_tool_call_messages_prefix:
  "prefix (messages (self fr)) (messages (self (snd (process_tool_call env tc fr))))"
  by (simp add: process_tool_call_def Let_def append_message_def call_tool_def
           split: sum.splits prod.splits)

lemma process_tool_calls_messages_prefix:
  "prefix (messages (self fr)) (messages (self (snd (process_tool_calls env tcs fr))))"
proof (induction tcs arbitrary: fr)
  case Nil
  show ?case by simp
next
  case (Cons tc tcs)
  obtain r1 f1 where p: "process_tool_call env tc fr = (r1, f1)"
    by (cases "process_tool_call env tc fr")
  have one: "prefix (messages (self fr)) (messages (self f1))"
    using process_tool_call_messages_prefix [of fr env tc] p by simp
  show ?case
  proof (cases r1)
    case None
    have "prefix (messages (self f1)) (messages (self (snd (process_tool_calls env tcs f1))))"
      by (rule Cons.IH)
    with one have "prefix (messages (self fr)) (messages (self (snd (process_tool_calls env tcs f1))))"
      by (rule prefix_order.trans)
    with p None show ?thesis by simp
  next
    case (Some e)
    with p one show ?thesis by simp
  qed
qed

lemma loop_body_appends_response:
  "prefix (messages (self fr) @ [Turn_assistant (response fr)])
     (messages (self (frame_of (loop_body env available_tools fr))))"
proof (cases "MAX_TOOL_CALLS \<le> tool_call_count fr")
  case True
  then show ?thesis
    by (simp add: loop_body_def Let_def create_def append_message_def split: sum.splits)
next
  case False
  show ?thesis
  proof (cases "tool_calls (response fr)")
    case None
    with False show ?thesis
      by (simp add: loop_body_def Let_def append_message_def)
  next
    case (Some tcs)
    from False have lim: "tool_call_count fr < MAX_TOOL_CALLS" by simp
    obtain r fr3 where b: "process_tool_calls env tcs
           (fr\<lparr>self := append_message (Turn_assistant (response fr)) (self fr),
               tool_call_count := tool_call_count fr + 1\<rparr>) = (r, fr3)"
      by (metis prod.collapse)
    have one: "prefix (messages (self fr) @ [Turn_assistant (response fr)]) (messages (self fr3))"
      using process_tool_calls_messages_prefix
        [of "fr\<lparr>self := append_message (Turn_assistant (response fr)) (self fr),
                   tool_call_count := tool_call_count fr + 1\<rparr>" env tcs] b
      by (simp add: append_message_def)
    have two: "messages (self (frame_of (loop_body env available_tools fr))) = messages (self fr3)"
      by (simp add: loop_body_batch [OF lim Some b] split: option.splits sum.splits)
    from one two show ?thesis by simp
  qed
qed

lemma loop_body_messages_prefix:
  "prefix (messages (self fr)) (messages (self (frame_of (loop_body env available_tools fr))))"
  using loop_body_appends_response [of fr env available_tools]
  by (rule append_prefixD)

lemma while_loop_messages_prefix:
  "prefix (messages (self fr)) (messages (snd (while_loop env available_tools fr)))"
proof (induction env available_tools fr rule: while_loop.induct)
  case (1 env available_tools fr)
  show ?case
  proof (cases "loop_body env available_tools fr")
    case (Continue fr')
    have "prefix (messages (self fr)) (messages (self fr'))"
      using loop_body_messages_prefix [of fr env available_tools] Continue by simp
    also have "prefix \<dots> (messages (snd (while_loop env available_tools fr')))"
      using "1.IH" Continue by simp
    finally show ?thesis
      using Continue by (simp add: while_loop.simps [of env available_tools fr])
  next
    case (Break fr')
    then show ?thesis
      using loop_body_messages_prefix [of fr env available_tools]
      by (simp add: while_loop.simps [of env available_tools fr])
  next
    case (Raise e fr')
    then show ?thesis
      using loop_body_messages_prefix [of fr env available_tools]
      by (simp add: while_loop.simps [of env available_tools fr])
  qed
qed

lemma while_loop_outcome_prefix:
  "prefix (messages (self (frame_of (loop_body env available_tools fr))))
     (messages (snd (while_loop env available_tools fr)))"
proof (cases "loop_body env available_tools fr")
  case (Continue fr')
  then show ?thesis
    using while_loop_messages_prefix [of fr' env available_tools]
    by (simp add: while_loop.simps [of env available_tools fr])
next
  case (Break fr')
  then show ?thesis
    by (simp add: while_loop.simps [of env available_tools fr])
next
  case (Raise e fr')
  then show ?thesis
    by (simp add: while_loop.simps [of env available_tools fr])
qed

lemma enter_loop_messages_prefix:
  "prefix (messages c)
     (case enter_loop env query c of
        Inl (e, c') \<Rightarrow> messages c'
      | Inr (ts, fr) \<Rightarrow> messages (self fr))"
  by (simp add: enter_loop_def Let_def append_message_def list_tools_def create_def
           split: sum.splits prod.splits)

lemma process_query_snd:
  "enter_loop env query c = Inr (available_tools, fr) \<Longrightarrow>
     snd (process_query env query c) = snd (while_loop env available_tools fr)"
  by (auto simp: process_query_def split: prod.splits sum.splits)

lemma process_query_messages_prefix:
  "prefix (messages c) (messages (snd (process_query env query c)))"
proof (cases "enter_loop env query c")
  case (Inl p)
  then show ?thesis
    using enter_loop_messages_prefix [of c env query]
    by (simp add: process_query_def split: prod.splits)
next
  case (Inr p)
  obtain ts fr where p: "p = (ts, fr)" by (cases p)
  have "prefix (messages c) (messages (self fr))"
    using enter_loop_messages_prefix [of c env query] Inr p by simp
  also have "prefix \<dots> (messages (snd (while_loop env ts fr)))"
    by (rule while_loop_messages_prefix)
  finally show ?thesis
    using Inr p by (simp add: process_query_snd)
qed

lemma chat_loop_messages_prefix:
  "prefix (messages c) (messages (snd (chat_loop env queries c)))"
proof (induction queries arbitrary: c)
  case Nil
  show ?case by simp
next
  case (Cons q qs)
  have "prefix (messages c) (messages (snd (process_query env q c)))"
    by (rule process_query_messages_prefix)
  also have "prefix \<dots> (messages (snd (chat_loop env qs (snd (process_query env q c)))))"
    by (rule Cons.IH)
  finally show ?case
    by (auto split: prod.splits)
qed

text \<open>
  C7. Every step keeps the turns that are in \<^verbatim>\<open>self.messages\<close>, in their order, and only
  appends: one tool call, a batch of tool calls, one iteration of the loop, the loop, a
  query (whether it returns or raises), and a sequence of queries on one client. So the
  number of turns never decreases.
\<close>

theorem conversation_append_only:
  "prefix (messages (self fr)) (messages (self (snd (process_tool_call env tc fr))))
   \<and> prefix (messages (self fr)) (messages (self (snd (process_tool_calls env tcs fr))))
   \<and> prefix (messages (self fr)) (messages (self (frame_of (loop_body env available_tools fr))))
   \<and> prefix (messages (self fr)) (messages (snd (while_loop env available_tools fr)))
   \<and> prefix (messages c) (messages (snd (process_query env query c)))
   \<and> prefix (messages c) (messages (snd (chat_loop env queries c)))
   \<and> length (messages c) \<le> length (messages (snd (process_query env query c)))
   \<and> length (messages c) \<le> length (messages (snd (chat_loop env queries c)))"
  by (simp add: process_tool_call_messages_prefix process_tool_calls_messages_prefix
        loop_body_messages_prefix while_loop_messages_prefix process_query_messages_prefix
        chat_loop_messages_prefix prefix_length_le)

section \<open>Exceptions of tool calls\<close>

lemma rounds_Suc:
  "rounds n env available_tools fr = Some fr' \<Longrightarrow>
   loop_body env available_tools fr' = Continue fr'' \<Longrightarrow>
     rounds (Suc n) env available_tools fr = Some fr''"
proof (induction n arbitrary: fr)
  case 0
  then show ?case by simp
next
  case (Suc n)
  from Suc.prems(1) obtain fr1 where
    b: "loop_body env available_tools fr = Continue fr1" and
    r: "rounds n env available_tools fr1 = Some fr'"
    by (auto split: outcome.splits)
  from Suc.IH [OF r Suc.prems(2)] b show ?case by simp
qed

text \<open>A query in which only tool calls and decodings fail, with exceptions that the client
  catches, and in which every message without tool calls has a text, returns.\<close>

lemma process_tool_call_caught:
  assumes J: "\<forall>s x. json_loads env s = Inl x \<longrightarrow> is_JSONDecodeError x"
    and T: "\<forall>tr nm a x. session_call_tool env tr nm a = Inl x \<longrightarrow> is_Exception x"
    and "None \<notin> set (final_text fr)"
  shows "fst (process_tool_call env tc fr) = None
         \<and> None \<notin> set (final_text (snd (process_tool_call env tc fr)))"
proof (cases "decode_args env (tc_arguments tc)")
  case (Inl x)
  then have "is_JSONDecodeError x"
    using J by (auto simp: decode_args_def split: option.splits if_splits)
  from process_tool_call_decode_error [OF Inl this] assms(3) show ?thesis by simp
next
  case (Inr args)
  show ?thesis
  proof (cases "session_call_tool env (trace (self fr)) (tc_name tc) args")
    case l: (Inl x)
    from T l have "is_Exception x" by blast
    from process_tool_call_raises [OF Inr l this] assms(3) show ?thesis by simp
  next
    case r: (Inr res)
    from process_tool_call_returns [OF Inr r] assms(3) show ?thesis by simp
  qed
qed

lemma process_tool_calls_caught:
  assumes J: "\<forall>s x. json_loads env s = Inl x \<longrightarrow> is_JSONDecodeError x"
    and T: "\<forall>tr nm a x. session_call_tool env tr nm a = Inl x \<longrightarrow> is_Exception x"
  shows "None \<notin> set (final_text fr) \<Longrightarrow>
         fst (process_tool_calls env tcs fr) = None
         \<and> None \<notin> set (final_text (snd (process_tool_calls env tcs fr)))"
proof (induction tcs arbitrary: fr)
  case Nil
  then show ?case by simp
next
  case (Cons tc tcs)
  obtain r1 f1 where p: "process_tool_call env tc fr = (r1, f1)"
    by (cases "process_tool_call env tc fr")
  from process_tool_call_caught [OF J T Cons.prems, where tc = tc] p
  have r1: "r1 = None" and f1: "None \<notin> set (final_text f1)" by simp_all
  from Cons.IH [OF f1] p r1 show ?case by simp
qed

lemma loop_body_goes_on:
  assumes J: "\<forall>s x. json_loads env s = Inl x \<longrightarrow> is_JSONDecodeError x"
    and T: "\<forall>tr nm a x. session_call_tool env tr nm a = Inl x \<longrightarrow> is_Exception x"
    and M: "\<forall>tr rq. \<exists>m. completions_create env tr rq = Inr m
                          \<and> (tool_calls m = None \<longrightarrow> content m \<noteq> None)"
    and ft: "None \<notin> set (final_text fr)"
    and rs: "tool_calls (response fr) = None \<longrightarrow> content (response fr) \<noteq> None"
  shows "case loop_body env available_tools fr of
           Continue fr' \<Rightarrow> None \<notin> set (final_text fr')
                            \<and> (tool_calls (response fr') = None \<longrightarrow> content (response fr') \<noteq> None)
         | Break fr' \<Rightarrow> None \<notin> set (final_text fr')
         | Raise e fr' \<Rightarrow> False"
proof (cases "MAX_TOOL_CALLS \<le> tool_call_count fr")
  case True
  from M [rule_format, of "trace (self fr)"
           "\<lparr>model = MODEL env, tools = None, max_tokens = Some 1000,
             req_messages = messages (self fr) @
               [Turn_assistant (response fr), Turn_user FINAL_PROMPT]\<rparr>"]
  obtain m where "completions_create env (trace (self fr))
           \<lparr>model = MODEL env, tools = None, max_tokens = Some 1000,
             req_messages = messages (self fr) @
               [Turn_assistant (response fr), Turn_user FINAL_PROMPT]\<rparr> = Inr m"
    by blast
  with True ft show ?thesis
    by (simp add: loop_body_def Let_def create_def append_message_def)
next
  case False
  show ?thesis
  proof (cases "tool_calls (response fr)")
    case None
    with False ft rs show ?thesis
      by (auto simp: loop_body_def Let_def append_message_def)
  next
    case (Some tcs)
    from False have lim: "tool_call_count fr < MAX_TOOL_CALLS" by simp
    let ?b = "fr\<lparr>self := append_message (Turn_assistant (response fr)) (self fr),
                tool_call_count := tool_call_count fr + 1\<rparr>"
    obtain r fr3 where b: "process_tool_calls env tcs ?b = (r, fr3)"
      by (metis prod.collapse)
    have "None \<notin> set (final_text ?b)" using ft by simp
    from process_tool_calls_caught [OF J T this, where tcs = tcs] b
    have r: "r = None" and f3: "None \<notin> set (final_text fr3)" by simp_all
    from M [rule_format, of "trace (self fr3)"
           "\<lparr>model = MODEL env, tools = Some available_tools, max_tokens = Some 1000,
             req_messages = messages (self fr3)\<rparr>"]
    obtain m where mg: "completions_create env (trace (self fr3))
           \<lparr>model = MODEL env, tools = Some available_tools, max_tokens = Some 1000,
             req_messages = messages (self fr3)\<rparr> = Inr m
           \<and> (tool_calls m = None \<longrightarrow> content m \<noteq> None)" ..
    then have m: "completions_create env (trace (self fr3))
           \<lparr>model = MODEL env, tools = Some available_tools, max_tokens = Some 1000,
             req_messages = messages (self fr3)\<rparr> = Inr m"
      and g: "tool_calls m = None \<longrightarrow> content m \<noteq> None"
      by simp_all
    show ?thesis
      using loop_body_batch [OF lim Some b, where available_tools = available_tools] r m g f3 by simp
  qed
qed

lemma while_loop_returns:
  "\<forall>s x. json_loads env s = Inl x \<longrightarrow> is_JSONDecodeError x \<Longrightarrow>
   \<forall>tr nm a x. session_call_tool env tr nm a = Inl x \<longrightarrow> is_Exception x \<Longrightarrow>
   \<forall>tr rq. \<exists>m. completions_create env tr rq = Inr m
                 \<and> (tool_calls m = None \<longrightarrow> content m \<noteq> None) \<Longrightarrow>
   None \<notin> set (final_text fr) \<Longrightarrow>
   (tool_calls (response fr) = None \<longrightarrow> content (response fr) \<noteq> None) \<Longrightarrow>
     \<exists>ft. fst (while_loop env available_tools fr) = Inr ft \<and> None \<notin> set ft"
proof (induction env available_tools fr rule: while_loop.induct)
  case (1 env available_tools fr)
  note J = "1.prems"(1) and T = "1.prems"(2) and M = "1.prems"(3)
  note step = loop_body_goes_on
    [OF J T M "1.prems"(4) "1.prems"(5), where available_tools = available_tools]
  show ?case
  proof (cases "loop_body env available_tools fr")
    case (Continue fr')
    from step have "None \<notin> set (final_text fr')"
      and "tool_calls (response fr') = None \<longrightarrow> content (response fr') \<noteq> None"
      by (simp_all add: Continue)
    from "1.IH" [OF Continue J T M this] show ?thesis
      using Continue by (simp add: while_loop.simps [of env available_tools fr])
  next
    case (Break fr')
    from step show ?thesis
      by (simp add: Break while_loop.simps [of env available_tools fr])
  next
    case (Raise e fr')
    from step show ?thesis by (simp add: Raise)
  qed
qed

lemma join_from_returns:
  "None \<notin> set xs \<Longrightarrow> \<exists>t. join_from i sep xs = Inr t"
proof (induction xs arbitrary: i)
  case Nil
  show ?case by simp
next
  case (Cons x xs)
  then obtain s where x: "x = Some s" by (cases x) auto
  from Cons.prems have "None \<notin> set xs" by simp
  from Cons.IH [OF this, of "i + 1"] obtain t where "join_from (i + 1) sep xs = Inr t"
    by blast
  with x show ?case by simp
qed

lemma enter_loop_response:
  "enter_loop env query c = Inr (available_tools, fr) \<Longrightarrow>
     \<exists>tr rq. completions_create env tr rq = Inr (response fr)"
  by (fastforce simp: enter_loop_def Let_def list_tools_def create_def split: sum.splits)

lemma process_query_returns:
  assumes J: "\<forall>s x. json_loads env s = Inl x \<longrightarrow> is_JSONDecodeError x"
    and T: "\<forall>tr nm a x. session_call_tool env tr nm a = Inl x \<longrightarrow> is_Exception x"
    and M: "\<forall>tr rq. \<exists>m. completions_create env tr rq = Inr m
                          \<and> (tool_calls m = None \<longrightarrow> content m \<noteq> None)"
    and e: "enter_loop env query c = Inr (available_tools, fr0)"
  shows "\<exists>text. fst (process_query env query c) = Inr text"
proof -
  from enter_loop_response [OF e] obtain tr rq where
    r: "completions_create env tr rq = Inr (response fr0)" by blast
  from M r have g: "tool_calls (response fr0) = None \<longrightarrow> content (response fr0) \<noteq> None"
    by (metis sum.inject(2))
  from enter_loop_count [OF e] have f: "None \<notin> set (final_text fr0)" by simp
  from while_loop_returns [OF J T M f g, where available_tools = available_tools] obtain ft where
    w: "fst (while_loop env available_tools fr0) = Inr ft" and n: "None \<notin> set ft"
    by blast
  from join_from_returns [OF n, of 0 "[newline]"] obtain t where
    "join_from 0 [newline] ft = Inr t" by blast
  with w e show ?thesis
    by (auto simp: process_query_def str_join_def split: prod.splits sum.splits)
qed

text \<open>
  C4 (as amended). A query reaches, in some round below the round limit, a requested tool
  call whose arguments decode and whose execution raises an instance of \<^verbatim>\<open>Exception\<close>.
  Then the exception is caught: the text of the exception is appended as the tool turn of
  the call, nothing is added to the final text, and no exception leaves the call. The
  remaining calls of the batch are processed from there. When they are done and the next
  completion request is answered, the loop is in its next round with that response. The
  tool turn is in the conversation when the query ends. And the query returns a text when
  nothing else goes wrong in it: when \<^verbatim>\<open>json.loads\<close> raises nothing but a
  JSONDecodeError, tools raise nothing but instances of \<^verbatim>\<open>Exception\<close>, and every
  completion request is answered by a message that has tool calls or a text.
\<close>

theorem tool_exception_becomes_error_turn:
  assumes "enter_loop env query c = Inr (available_tools, fr0)"
    and "rounds n env available_tools fr0 = Some frn"
    and "tool_call_count frn < MAX_TOOL_CALLS"
    and "tool_calls (response frn) = Some (pre @ tc # rest)"
    and "process_tool_calls env pre
           (frn\<lparr>self := append_message (Turn_assistant (response frn)) (self frn),
                tool_call_count := tool_call_count frn + 1\<rparr>) = (None, fr)"
    and "decode_args env (tc_arguments tc) = Inr args"
    and "session_call_tool env (trace (self fr)) (tc_name tc) args = Inl e"
    and "is_Exception e"
    and "fr' = fr\<lparr>self := \<lparr>messages = messages (self fr) @
                           [Turn_tool (tc_id tc) (JStr (''Error executing tool: '' @ exn_str e))],
                         trace = trace (self fr) @ [CallTool (tc_name tc) args]\<rparr>\<rparr>"
  shows "process_tool_call env tc fr = (None, fr')
         \<and> process_tool_calls env (tc # rest) fr = process_tool_calls env rest fr'
         \<and> (\<forall>fr3 m.
               process_tool_calls env rest fr' = (None, fr3) \<longrightarrow>
               completions_create env (trace (self fr3))
                 \<lparr>model = MODEL env, tools = Some available_tools, max_tokens = Some 1000,
                  req_messages = messages (self fr3)\<rparr> = Inr m \<longrightarrow>
               rounds (Suc n) env available_tools fr0 =
                 Some (fr3\<lparr>self := (self fr3)\<lparr>trace := trace (self fr3) @
                          [Create \<lparr>model = MODEL env, tools = Some available_tools,
                                   max_tokens = Some 1000,
                                   req_messages = messages (self fr3)\<rparr>]\<rparr>,
                        response := m\<rparr>))
         \<and> prefix (messages (self fr')) (messages (snd (process_query env query c)))
         \<and> ((\<forall>s x. json_loads env s = Inl x \<longrightarrow> is_JSONDecodeError x)
              \<and> (\<forall>tr nm a x. session_call_tool env tr nm a = Inl x \<longrightarrow> is_Exception x)
              \<and> (\<forall>tr rq. \<exists>m. completions_create env tr rq = Inr m
                               \<and> (tool_calls m = None \<longrightarrow> content m \<noteq> None))
              \<longrightarrow> (\<exists>text. fst (process_query env query c) = Inr text))"
proof -
  let ?b = "frn\<lparr>self := append_message (Turn_assistant (response frn)) (self frn),
                tool_call_count := tool_call_count frn + 1\<rparr>"
  have one: "process_tool_call env tc fr = (None, fr')"
    using process_tool_call_raises [OF assms(6,7,8)] assms(9) by simp
  then have two: "process_tool_calls env (tc # rest) fr = process_tool_calls env rest fr'"
    by simp
  have whole: "process_tool_calls env (pre @ tc # rest) ?b = process_tool_calls env rest fr'"
    using assms(5) two by (simp add: process_tool_calls_append)
  have three: "\<forall>fr3 m.
               process_tool_calls env rest fr' = (None, fr3) \<longrightarrow>
               completions_create env (trace (self fr3))
                 \<lparr>model = MODEL env, tools = Some available_tools, max_tokens = Some 1000,
                  req_messages = messages (self fr3)\<rparr> = Inr m \<longrightarrow>
               rounds (Suc n) env available_tools fr0 =
                 Some (fr3\<lparr>self := (self fr3)\<lparr>trace := trace (self fr3) @
                          [Create \<lparr>model = MODEL env, tools = Some available_tools,
                                   max_tokens = Some 1000,
                                   req_messages = messages (self fr3)\<rparr>]\<rparr>,
                        response := m\<rparr>)"
  proof (intro allI impI)
    fix fr3 m
    assume r: "process_tool_calls env rest fr' = (None, fr3)"
      and m: "completions_create env (trace (self fr3))
                 \<lparr>model = MODEL env, tools = Some available_tools, max_tokens = Some 1000,
                  req_messages = messages (self fr3)\<rparr> = Inr m"
    from whole r have b: "process_tool_calls env (pre @ tc # rest) ?b = (None, fr3)"
      by simp
    have "loop_body env available_tools frn =
            Continue (fr3\<lparr>self := (self fr3)\<lparr>trace := trace (self fr3) @
                          [Create \<lparr>model = MODEL env, tools = Some available_tools,
                                   max_tokens = Some 1000,
                                   req_messages = messages (self fr3)\<rparr>]\<rparr>,
                        response := m\<rparr>)"
      using loop_body_batch [OF assms(3,4) b, where available_tools = available_tools] m
      by simp
    from rounds_Suc [OF assms(2) this]
    show "rounds (Suc n) env available_tools fr0 =
                 Some (fr3\<lparr>self := (self fr3)\<lparr>trace := trace (self fr3) @
                          [Create \<lparr>model = MODEL env, tools = Some available_tools,
                                   max_tokens = Some 1000,
                                   req_messages = messages (self fr3)\<rparr>]\<rparr>,
                        response := m\<rparr>)" .
  qed
  have four: "prefix (messages (self fr')) (messages (snd (process_query env query c)))"
  proof -
    obtain r fr3 where b: "process_tool_calls env rest fr' = (r, fr3)"
      by (metis prod.collapse)
    have "prefix (messages (self fr')) (messages (self fr3))"
      using process_tool_calls_messages_prefix [of fr' env rest] b by simp
    also have "messages (self fr3) = messages (self (frame_of (loop_body env available_tools frn)))"
      using loop_body_batch [OF assms(3,4), where available_tools = available_tools
                               and r = r and ?fr3.0 = fr3] whole b
      by (simp split: option.splits sum.splits)
    also have "prefix \<dots> (messages (snd (while_loop env available_tools frn)))"
      by (rule while_loop_outcome_prefix)
    also have "while_loop env available_tools frn = while_loop env available_tools fr0"
      using rounds_while_loop [OF assms(2)] by simp
    also have "snd (while_loop env available_tools fr0) = snd (process_query env query c)"
      using process_query_snd [OF assms(1)] by simp
    finally show ?thesis .
  qed
  have five: "(\<forall>s x. json_loads env s = Inl x \<longrightarrow> is_JSONDecodeError x)
              \<and> (\<forall>tr nm a x. session_call_tool env tr nm a = Inl x \<longrightarrow> is_Exception x)
              \<and> (\<forall>tr rq. \<exists>m. completions_create env tr rq = Inr m
                               \<and> (tool_calls m = None \<longrightarrow> content m \<noteq> None))
              \<longrightarrow> (\<exists>text. fst (process_query env query c) = Inr text)"
  proof (intro impI, elim conjE)
    assume J: "\<forall>s x. json_loads env s = Inl x \<longrightarrow> is_JSONDecodeError x"
      and T: "\<forall>tr nm a x. session_call_tool env tr nm a = Inl x \<longrightarrow> is_Exception x"
      and M: "\<forall>tr rq. \<exists>m. completions_create env tr rq = Inr m
                               \<and> (tool_calls m = None \<longrightarrow> content m \<noteq> None)"
    show "\<exists>text. fst (process_query env query c) = Inr text"
      by (rule process_query_returns [OF J T M assms(1)])
  qed
  from one two three four five show ?thesis
    by (intro conjI)
qed

theorem tool_exception_becomes_error_turn_witness:
  "enter_loop (calm_env [asks [unknown_call, search_call ''call_11'']])
      ''who is martin moder'' new_client = Inr (demo_tools, failing_frame)
   \<and> process_tool_call (calm_env [asks [unknown_call, search_call ''call_11'']])
        unknown_call failing_batch_frame =
       (None,
        failing_batch_frame\<lparr>self :=
          \<lparr>messages = messages (self failing_batch_frame) @
             [Turn_tool ''call_3'' (JStr ''Error executing tool: Unknown tool: fetch'')],
           trace = trace (self failing_batch_frame) @
             [CallTool ''fetch'' (JDict [(''query'', JStr ''martin moder'')])]\<rparr>\<rparr>)
   \<and> rounds (Suc 0) (calm_env [asks [unknown_call, search_call ''call_11'']])
        demo_tools failing_frame \<noteq> None
   \<and> prefix (messages (self failing_batch_frame) @
               [Turn_tool ''call_3'' (JStr ''Error executing tool: Unknown tool: fetch'')])
        (messages (snd (process_query (calm_env [asks [unknown_call, search_call ''call_11'']])
                          ''who is martin moder'' new_client)))
   \<and> (case fst (process_query (calm_env [asks [unknown_call, search_call ''call_11'']])
                   ''who is martin moder'' new_client) of
         Inl x \<Rightarrow> False
       | Inr text \<Rightarrow> True)"
proof -
  let ?E = "calm_env [asks [unknown_call, search_call ''call_11'']]"
  let ?args = "JDict [(''query'', JStr ''martin moder'')]"
  let ?e = "Exn IsException ''McpError'' ''Unknown tool: fetch''"
  let ?fr' = "failing_batch_frame\<lparr>self :=
          \<lparr>messages = messages (self failing_batch_frame) @
             [Turn_tool (tc_id unknown_call) (JStr (''Error executing tool: '' @ exn_str ?e))],
           trace = trace (self failing_batch_frame) @
             [CallTool (tc_name unknown_call) ?args]\<rparr>\<rparr>"
  have w1: "enter_loop ?E ''who is martin moder'' new_client = Inr (demo_tools, failing_frame)"
    by (simp add: enter_loop_def list_tools_def create_def append_message_def Let_def
          calm_env_def new_client_def failing_frame_def demo_tools_def)
  have w2: "rounds 0 ?E demo_tools failing_frame = Some failing_frame"
    by simp
  have w3: "tool_call_count failing_frame < MAX_TOOL_CALLS"
    by (simp add: failing_frame_def MAX_TOOL_CALLS_def)
  have w4: "tool_calls (response failing_frame) = Some ([] @ unknown_call # [search_call ''call_11''])"
    by (simp add: failing_frame_def asks_def)
  have w5: "process_tool_calls ?E []
           (failing_frame\<lparr>self := append_message (Turn_assistant (response failing_frame))
                                      (self failing_frame),
                          tool_call_count := tool_call_count failing_frame + 1\<rparr>)
        = (None, failing_batch_frame)"
    by (simp add: failing_batch_frame_def)
  have w6: "decode_args ?E (tc_arguments unknown_call) = Inr ?args"
    by (simp add: decode_args_def calm_env_def unknown_call_def search_args_def quoted_def)
  have w7: "session_call_tool ?E (trace (self failing_batch_frame)) (tc_name unknown_call) ?args
              = Inl ?e"
    by (simp add: calm_env_def unknown_call_def)
  have w8: "is_Exception ?e"
    by (simp add: is_Exception_def)
  have w9: "?fr' = ?fr'"
    by (rule refl)
  have J: "\<forall>s x. json_loads ?E s = Inl x \<longrightarrow> is_JSONDecodeError x"
    by (simp add: calm_env_def is_JSONDecodeError_def)
  have T: "\<forall>tr nm a x. session_call_tool ?E tr nm a = Inl x \<longrightarrow> is_Exception x"
    by (simp add: calm_env_def is_Exception_def)
  have M: "\<forall>tr rq. \<exists>m. completions_create ?E tr rq = Inr m
                               \<and> (tool_calls m = None \<longrightarrow> content m \<noteq> None)"
    by (simp add: calm_env_def asks_def answers_def)
  note inst = tool_exception_becomes_error_turn [OF w1 w2 w3 w4 w5 w6 w7 w8 w9]
  from inst have c1: "process_tool_call ?E unknown_call failing_batch_frame = (None, ?fr')"
    by (rule conjunct1)
  from process_tool_calls_caught [OF J T, of "?fr'" "[search_call ''call_11'']"]
  have "fst (process_tool_calls ?E [search_call ''call_11''] ?fr') = None"
    by (simp add: failing_batch_frame_def failing_frame_def)
  then obtain fr3 where r: "process_tool_calls ?E [search_call ''call_11''] ?fr' = (None, fr3)"
    by (metis prod.collapse)
  from M obtain m where m: "completions_create ?E (trace (self fr3))
                 \<lparr>model = MODEL ?E, tools = Some demo_tools, max_tokens = Some 1000,
                  req_messages = messages (self fr3)\<rparr> = Inr m"
    by blast
  from inst r m have c3: "rounds (Suc 0) ?E demo_tools failing_frame \<noteq> None"
    by simp
  from inst have c4: "prefix (messages (self ?fr'))
        (messages (snd (process_query ?E ''who is martin moder'' new_client)))"
    by simp
  from inst J T M have "\<exists>text. fst (process_query ?E ''who is martin moder'' new_client) = Inr text"
    by blast
  then have c5: "(case fst (process_query ?E ''who is martin moder'' new_client) of
         Inl x \<Rightarrow> False | Inr text \<Rightarrow> True)"
    by auto
  from w1 c1 c3 c4 c5 show ?thesis
    by (simp add: unknown_call_def)
qed

text \<open>
  C4 as it was stated fails: when the task is cancelled during the call of a tool, what the
  call raises is a CancelledError, which is no \<^verbatim>\<open>Exception\<close>, and the client does not
  catch it. No tool turn is appended for the call, the call after it in the batch is not
  processed, and the exception leaves \<^verbatim>\<open>process_query\<close>.
\<close>

theorem cancelled_tool_call_escapes:
  "session_call_tool (demo_env []) [] ''sleep'' (JDict []) =
     Inl (Exn IsBaseException ''CancelledError'' [])
   \<and> fst (process_query (demo_env [asks [sleep_call, search_call ''call_13'']]) ''hello'' new_client) =
       Inl (Exn IsBaseException ''CancelledError'' [])
   \<and> messages (snd (process_query (demo_env [asks [sleep_call, search_call ''call_13'']]) ''hello'' new_client)) =
       [Turn_system SYSTEM_PROMPT, Turn_user ''hello'',
        Turn_assistant (asks [sleep_call, search_call ''call_13'']),
        Turn_assistant (asks [sleep_call, search_call ''call_13''])]
   \<and> filter is_CallTool
        (trace (snd (process_query (demo_env [asks [sleep_call, search_call ''call_13'']]) ''hello'' new_client))) =
       [CallTool ''sleep'' (JDict [])]"
proof -
  have q: "process_query (demo_env [asks [sleep_call, search_call ''call_13'']]) ''hello'' new_client =
      (Inl (Exn IsBaseException ''CancelledError'' []),
       \<lparr>messages = [Turn_system SYSTEM_PROMPT, Turn_user ''hello'',
          Turn_assistant (asks [sleep_call, search_call ''call_13'']),
          Turn_assistant (asks [sleep_call, search_call ''call_13''])],
        trace = [ListTools,
                 Create \<lparr>model = ''openai/gpt-oss-120b:free'', tools = Some demo_tools,
                         max_tokens = None,
                         req_messages = [Turn_system SYSTEM_PROMPT, Turn_user ''hello'']\<rparr>,
                 CallTool ''sleep'' (JDict [])]\<rparr>)"
    by (simp add: process_query_def enter_loop_def while_loop.simps loop_body_def
          process_tool_call_def decode_args_def is_Exception_def
          append_message_def list_tools_def create_def call_tool_def Let_def MAX_TOOL_CALLS_def
          demo_env_def scripted_def sleep_call_def asks_def new_client_def demo_tools_def)
  show ?thesis
    by (simp add: q) (simp add: demo_env_def)
qed

section \<open>Where the client departs from its specification\<close>

lemma enter_loop_messages:
  "enter_loop env query c = Inr (available_tools, fr) \<Longrightarrow>
     messages (self fr) =
       messages c @ [Turn_system SYSTEM_PROMPT, Turn_user query, Turn_assistant (response fr)]"
  by (auto simp: enter_loop_def Let_def append_message_def list_tools_def create_def
        split: sum.splits)

lemma while_loop_appends_response:
  "prefix (messages (self fr) @ [Turn_assistant (response fr)])
     (messages (snd (while_loop env available_tools fr)))"
proof -
  have "prefix (messages (self fr) @ [Turn_assistant (response fr)])
          (messages (self (frame_of (loop_body env available_tools fr))))"
    by (rule loop_body_appends_response)
  also have "prefix \<dots> (messages (snd (while_loop env available_tools fr)))"
    by (rule while_loop_outcome_prefix)
  finally show ?thesis .
qed

text \<open>In every query whose first completion succeeds, the first response is in the
  conversation twice: it is appended before the loop and again by the first iteration.\<close>

lemma first_response_duplicated:
  assumes "enter_loop env query c = Inr (available_tools, fr)"
  shows "prefix (messages c @ [Turn_system SYSTEM_PROMPT, Turn_user query,
                   Turn_assistant (response fr), Turn_assistant (response fr)])
           (messages (snd (process_query env query c)))"
  using while_loop_appends_response [of fr env available_tools]
    enter_loop_messages [OF assms] process_query_snd [OF assms]
  by simp

text \<open>
  C6. Each completion is to give one assistant turn of the conversation. The client appends
  the response of the first completion twice: here one completion is requested, the model
  answers with a plain text, and the conversation ends with two copies of that assistant
  turn.
\<close>

theorem first_response_appended_twice:
  "messages (snd (process_query (demo_env [answers ''hi'']) ''hello'' new_client)) =
     [Turn_system SYSTEM_PROMPT, Turn_user ''hello'',
      Turn_assistant (answers ''hi''), Turn_assistant (answers ''hi'')]
   \<and> length (filter is_Create (trace (snd (process_query (demo_env [answers ''hi'']) ''hello'' new_client)))) = 1"
  by (simp add: process_query_def enter_loop_def while_loop.simps str_join_def newline_def
        demo_defs run_defs)

text \<open>
  C8. A query is to return a text also when the last response has no text. When the model's
  last response has no tool calls and its text is None, the client puts None into the final
  text and the join raises a TypeError, which \<^verbatim>\<open>process_query\<close> passes on to its
  caller.
\<close>

theorem final_response_without_text_raises:
  "fst (process_query (demo_env [silent]) ''hello'' new_client) =
     Inl (Exn IsException ''TypeError'' ''sequence item 0: expected str instance, NoneType found'')"
  by (simp add: process_query_def enter_loop_def while_loop.simps str_join_def newline_def
        silent_def str_nat.simps demo_defs run_defs)

text \<open>With an empty text instead, the query returns the empty string.\<close>

lemma final_response_with_empty_text_returns:
  "fst (process_query (demo_env [answers []]) ''hello'' new_client) = Inr []"
  by (simp add: process_query_def enter_loop_def while_loop.simps str_join_def newline_def
        demo_defs run_defs)

end
